theory Spec2Isabelle
  imports Complex_Main "HOL-Library.Word"
begin

section \<open>Shared JavaScript conventions\<close>

text \<open>
  Integers the drivers deliver (MIDI data bytes, channels, timestamps of \<^verbatim>\<open>Date.now()\<close>)
  are modelled as \<open>int\<close>; an absent property (\<^verbatim>\<open>undefined\<close>) of an event is \<open>None\<close>.
  Quotients such as \<^verbatim>\<open>combinedValue / 16383\<close> are kept as exact rationals.
  Template strings and \<^verbatim>\<open>Array.prototype.join\<close> print integers in decimal.
\<close>

function string_of_nat :: "nat \<Rightarrow> string" where
  "string_of_nat n =
     (if n < 10 then [''0123456789'' ! n]
      else string_of_nat (n div 10) @ [''0123456789'' ! (n mod 10)])"
  by pat_completeness auto
termination
  by (relation "measure (\<lambda>n. n)") auto

definition string_of_int :: "int \<Rightarrow> string" where
  "string_of_int i =
     (if i < 0 then CHR ''-'' # string_of_nat (nat (- i)) else string_of_nat (nat i))"

text \<open>
  Values of mapping files (JSON) and of computed action fields. Numbers are exact
  rationals; the results of a division by zero are kept apart (\<open>JNaN\<close>, \<open>JInf\<close> with
  the sign, \<open>True\<close> for positive).
\<close>

datatype jsval =
    JUndefined
  | JNull
  | JBool bool
  | JNum rat
  | JNaN
  | JInf bool
  | JStr string
  | JObj "(string \<times> jsval) list"

text \<open>Truthiness, as \<^verbatim>\<open>if (x)\<close>, \<^verbatim>\<open>!x\<close> and \<^verbatim>\<open>x || y\<close> test it.\<close>

fun truthy :: "jsval \<Rightarrow> bool" where
  "truthy JUndefined = False"
| "truthy JNull = False"
| "truthy (JBool b) = b"
| "truthy (JNum r) = (r \<noteq> 0)"
| "truthy JNaN = False"
| "truthy (JInf _) = True"
| "truthy (JStr s) = (s \<noteq> [])"
| "truthy (JObj _) = True"

text \<open>An optional integer property as a value.\<close>

definition num_of :: "int option \<Rightarrow> jsval" where
  "num_of x = (case x of None \<Rightarrow> JUndefined | Some i \<Rightarrow> JNum (of_int i))"

text \<open>The action object both translators build and the router forwards.\<close>

record action =
  a_type :: jsval
  a_command :: jsval
  a_target :: jsval
  a_priority :: jsval
  a_timestamp :: int
  a_deviceId :: string
  a_from :: jsval
  a_deck :: jsval
  a_value :: jsval
  a_delta :: jsval
  a_direction :: jsval
  a_mode :: jsval
  a_rawValue :: jsval

section \<open>MIDIManager: 14-bit CC reconstruction\<close>

text \<open>
  The normalized MIDI event of \<^verbatim>\<open>_normalizeMIDIMessage\<close>, extended with the fields
  that \<^verbatim>\<open>_handle14BitCC\<close> adds to a combined message. \<open>mtype\<close> is the property
  \<^verbatim>\<open>type\<close>, \<open>val\<close> the property \<^verbatim>\<open>value\<close>.
\<close>

record midi_event =
  deviceId :: string
  mtype :: string
  channel :: int
  timestamp :: int
  mnote :: "int option"
  velocity :: "int option"
  controller :: "int option"
  val :: "int option"
  value14bit :: "int option"
  maxValue :: "int option"
  normalized :: "rat option"
  highRes :: bool
  lsbController :: "int option"
  msb :: "int option"
  lsb :: "int option"

text \<open>An entry of the per-device table of pending MSBs: \<^verbatim>\<open>{ value, timestamp, channel }\<close>.\<close>

record pending_msb =
  p_value :: int
  p_timestamp :: int
  p_channel :: int

type_synonym device_cc_state = "string \<rightharpoonup> pending_msb"

record midi_manager =
  highResCCState :: "string \<rightharpoonup> device_cc_state"
  highResCCTimeout :: int

text \<open>The constructor: an empty table and a pairing window of 50 ms.\<close>

definition MIDIManager_new :: midi_manager where
  "MIDIManager_new = \<lparr> highResCCState = Map.empty, highResCCTimeout = 50 \<rparr>"

text \<open>The key \<^verbatim>\<open>`${channel}:${controller}`\<close>.\<close>

definition cc_key :: "int \<Rightarrow> int \<Rightarrow> string" where
  "cc_key ch c = string_of_int ch @ '':'' @ string_of_int c"

text \<open>
  The clean-up loop of the MSB branch: every entry with
  \<^verbatim>\<open>now - v.timestamp > this.highResCCTimeout\<close> is deleted (deleting from a
  \<^verbatim>\<open>Map\<close> while iterating over it visits every entry).
\<close>

definition sweep :: "int \<Rightarrow> int \<Rightarrow> device_cc_state \<Rightarrow> device_cc_state" where
  "sweep now timeout ds =
     (\<lambda>k. case ds k of
             None \<Rightarrow> None
           | Some v \<Rightarrow> if now - p_timestamp v > timeout then None else Some v)"

text \<open>
  The table \<^verbatim>\<open>this.highResCCState.get(deviceId)\<close>, empty when the device has none
  yet (the handler then creates it).
\<close>

definition device_state :: "midi_manager \<Rightarrow> string \<Rightarrow> device_cc_state" where
  "device_state mgr dev = (case highResCCState mgr dev of None \<Rightarrow> Map.empty | Some ds \<Rightarrow> ds)"

text \<open>
  \<^verbatim>\<open>_handle14BitCC(deviceId, ccMessage)\<close>. The arguments \<open>t1\<close> and \<open>t2\<close> are the
  values that the first and the second call of \<^verbatim>\<open>Date.now()\<close> during this invocation
  return: the LSB branch reads the clock at most once (\<open>t1\<close>, the age check), the MSB
  branch twice (\<open>t1\<close> for the stored timestamp, \<open>t2\<close> for the clean-up). The driver
  delivers a controller number and a value with every CC message; a message without
  them takes neither branch in the model. The result is the returned message
  (\<open>None\<close> for \<^verbatim>\<open>null\<close>) and the manager afterwards.
\<close>

definition handle14BitCC ::
  "int \<Rightarrow> int \<Rightarrow> midi_manager \<Rightarrow> string \<Rightarrow> midi_event \<Rightarrow> midi_event option \<times> midi_manager" where
  "handle14BitCC t1 t2 mgr dev ccMessage =
     (if mtype ccMessage \<noteq> ''cc'' then (None, mgr)
      else
        let deviceState = device_state mgr dev;
            store = (\<lambda>ds. mgr\<lparr> highResCCState := (highResCCState mgr)(dev \<mapsto> ds) \<rparr>)
        in case (controller ccMessage, val ccMessage) of
             (Some c, Some v) \<Rightarrow>
               let isLSB = (c \<ge> 32 \<and> c < 64);
                   msbController = (if isLSB then c - 32 else c);
                   lsbCtl = msbController + 32
               in if isLSB then
                    (let key = cc_key (channel ccMessage) msbController
                     in case deviceState key of
                          Some msbData \<Rightarrow>
                            if t1 - p_timestamp msbData < highResCCTimeout mgr then
                              (let combinedValue = p_value msbData * 128 + v
                               in (Some (ccMessage\<lparr>
                                      controller := Some msbController,
                                      val := Some combinedValue,
                                      value14bit := Some combinedValue,
                                      maxValue := Some 16383,
                                      normalized := Some (of_int combinedValue / 16383),
                                      highRes := True,
                                      lsbController := Some lsbCtl,
                                      msb := Some (p_value msbData),
                                      lsb := Some v \<rparr>),
                                   store (deviceState(key := None))))
                            else (None, store deviceState)
                        | None \<Rightarrow> (None, store deviceState))
                  else if c < 32 then
                    (let key = cc_key (channel ccMessage) c;
                         ds1 = deviceState(key \<mapsto>
                                 \<lparr> p_value = v, p_timestamp = t1, p_channel = channel ccMessage \<rparr>)
                     in (None, store (sweep t2 (highResCCTimeout mgr) ds1)))
                  else (None, store deviceState)
           | _ \<Rightarrow> (None, store deviceState))"

text \<open>A CC message as the driver callback normalizes it.\<close>

definition cc_message :: "string \<Rightarrow> int \<Rightarrow> int \<Rightarrow> int \<Rightarrow> int \<Rightarrow> midi_event" where
  "cc_message dev ch c v ts =
     \<lparr> deviceId = dev, mtype = ''cc'', channel = ch, timestamp = ts,
       mnote = None, velocity = None, controller = Some c, val = Some v,
       value14bit = None, maxValue = None, normalized = None, highRes = False,
       lsbController = None, msb = None, lsb = None \<rparr>"

section \<open>ActionRouter\<close>

text \<open>The message \<^verbatim>\<open>_sendAction\<close> hands to the Audio Engine client.\<close>

record message =
  m_type :: jsval
  m_command :: jsval
  m_target :: jsval
  m_priority :: jsval
  m_timestamp :: int
  m_deck :: jsval
  m_value :: jsval
  m_delta :: jsval
  m_direction :: jsval
  m_from :: jsval

text \<open>
  The client's \<^verbatim>\<open>send\<close>: it answers with a success flag or throws (\<open>Inl\<close> with the
  error message).
\<close>

type_synonym client = "message \<Rightarrow> string + bool"

text \<open>
  \<^verbatim>\<open>this.stats\<close>. A counter of \<^verbatim>\<open>actionsByPriority\<close> or \<^verbatim>\<open>actionsByTarget\<close> is
  \<open>None\<close> where the property holds no number (it is absent, or \<^verbatim>\<open>NaN\<close> after
  \<^verbatim>\<open>++\<close> on an absent property).
\<close>

record stats =
  totalActions :: nat
  droppedActions :: nat
  actionsByPriority :: "jsval \<Rightarrow> nat option"
  actionsByTarget :: "jsval \<Rightarrow> nat option"

text \<open>
  The router. \<open>sent\<close> is the trace of the messages passed to
  \<^verbatim>\<open>this.audioClient.send\<close>, oldest first; \<open>audioClient\<close> is \<open>None\<close> when the router
  was built without a client.
\<close>

record router =
  audioClient :: "client option"
  criticalQueue :: "action list"
  highQueue :: "action list"
  normalQueue :: "action list"
  isProcessing :: bool
  maxQueueSize :: nat
  rstats :: stats
  sent :: "message list"

definition ActionRouter_new :: "client option \<Rightarrow> router" where
  "ActionRouter_new c =
     \<lparr> audioClient = c, criticalQueue = [], highQueue = [], normalQueue = [],
       isProcessing = False, maxQueueSize = 1000,
       rstats = \<lparr> totalActions = 0, droppedActions = 0,
                  actionsByPriority = (\<lambda>k. if k \<in> {JStr ''critical'', JStr ''high'', JStr ''normal''}
                                             then Some 0 else None),
                  actionsByTarget = (\<lambda>k. if k \<in> {JStr ''audio'', JStr ''app'', JStr ''ui''}
                                           then Some 0 else None) \<rparr>,
       sent = [] \<rparr>"

text \<open>The message of an action; \<open>now\<close> stands for \<^verbatim>\<open>Date.now()\<close>, read only when
  \<^verbatim>\<open>action.timestamp\<close> is falsy (zero).\<close>

definition message_of :: "int \<Rightarrow> action \<Rightarrow> message" where
  "message_of now a =
     \<lparr> m_type = a_type a, m_command = a_command a, m_target = a_target a,
       m_priority = a_priority a,
       m_timestamp = (if a_timestamp a \<noteq> 0 then a_timestamp a else now),
       m_deck = a_deck a, m_value = a_value a, m_delta = a_delta a,
       m_direction = a_direction a, m_from = a_from a \<rparr>"

text \<open>\<^verbatim>\<open>_sendAction(action)\<close>: the success flag and the router afterwards.\<close>

definition sendAction :: "int \<Rightarrow> router \<Rightarrow> action \<Rightarrow> bool \<times> router" where
  "sendAction now r a =
     (case audioClient r of
        None \<Rightarrow> (False, r)
      | Some c \<Rightarrow>
          let message = message_of now a
          in ((case c message of Inl _ \<Rightarrow> False | Inr success \<Rightarrow> success),
              r\<lparr> sent := sent r @ [message] \<rparr>))"

text \<open>\<^verbatim>\<open>counters[key]++\<close>.\<close>

definition bump :: "('k \<Rightarrow> nat option) \<Rightarrow> 'k \<Rightarrow> ('k \<Rightarrow> nat option)" where
  "bump f k = f(k := map_option Suc (f k))"

text \<open>
  \<^verbatim>\<open>route(action)\<close>, for an action object (the server never routes \<^verbatim>\<open>null\<close>):
  the returned flag and the router afterwards. \<open>now\<close> is the clock reading that the
  immediate send of a critical action may take.
\<close>

definition route :: "int \<Rightarrow> router \<Rightarrow> action \<Rightarrow> bool \<times> router" where
  "route now r a =
     (if \<not> truthy (a_target a) \<or> \<not> truthy (a_priority a) then (False, r)
      else
        let st = rstats r;
            r1 = r\<lparr> rstats := st\<lparr> totalActions := totalActions st + 1,
                                   actionsByPriority := bump (actionsByPriority st) (a_priority a),
                                   actionsByTarget := bump (actionsByTarget st) (a_target a) \<rparr> \<rparr>
        in if a_priority a = JStr ''critical'' then sendAction now r1 a
           else if a_priority a = JStr ''high'' then
             (if length (highQueue r1) \<ge> maxQueueSize r1
              then (False, r1\<lparr> rstats := (rstats r1)\<lparr> droppedActions := droppedActions (rstats r1) + 1 \<rparr> \<rparr>)
              else (True, r1\<lparr> highQueue := highQueue r1 @ [a] \<rparr>))
           else
             (if length (normalQueue r1) \<ge> maxQueueSize r1
              then (False, r1\<lparr> rstats := (rstats r1)\<lparr> droppedActions := droppedActions (rstats r1) + 1 \<rparr> \<rparr>)
              else (True, r1\<lparr> normalQueue := normalQueue r1 @ [a] \<rparr>)))"

text \<open>
  \<^verbatim>\<open>_processQueues()\<close>, one scheduling turn: \<open>now\<close> is the clock reading of the turn
  (\<^verbatim>\<open>_sendAction\<close> reads the clock at most once).
\<close>

definition processQueues :: "int \<Rightarrow> router \<Rightarrow> router" where
  "processQueues now r =
     (if isProcessing r then r
      else
        let r1 = r\<lparr> isProcessing := True \<rparr>;
            r2 = (case highQueue r1 of
                    a # rest \<Rightarrow> snd (sendAction now (r1\<lparr> highQueue := rest \<rparr>) a)
                  | [] \<Rightarrow>
                      (case normalQueue r1 of
                         a # rest \<Rightarrow> snd (sendAction now (r1\<lparr> normalQueue := rest \<rparr>) a)
                       | [] \<Rightarrow> r1))
        in r2\<lparr> isProcessing := False \<rparr>)"

text \<open>
  The loop of \<^verbatim>\<open>_startProcessing\<close>: every \<^verbatim>\<open>setImmediate\<close> turn runs
  \<^verbatim>\<open>_processQueues\<close> once and schedules the next turn. One clock reading per turn.
\<close>

fun run_turns :: "int list \<Rightarrow> router \<Rightarrow> router" where
  "run_turns [] r = r"
| "run_turns (t # ts) r = run_turns ts (processQueues t r)"

text \<open>An action with the given type, command, target, priority and timestamp and no
  other property, for stating examples.\<close>

definition plain_action :: "string \<Rightarrow> string \<Rightarrow> string \<Rightarrow> string \<Rightarrow> int \<Rightarrow> action" where
  "plain_action ty cmd tgt prio ts =
     \<lparr> a_type = JStr ty, a_command = JStr cmd, a_target = JStr tgt, a_priority = JStr prio,
       a_timestamp = ts, a_deviceId = ''midi-dev'', a_from = JUndefined, a_deck = JUndefined,
       a_value = JUndefined, a_delta = JUndefined, a_direction = JUndefined,
       a_mode = JUndefined, a_rawValue = JUndefined \<rparr>"

section \<open>HIDManager: report parsing and state diffing\<close>

text \<open>
  A control of \<^verbatim>\<open>config.parsing.controls\<close>. \<open>c_type\<close> is the property \<^verbatim>\<open>type\<close>;
  absent numeric properties are \<open>None\<close>. \<open>c_min\<close> and \<open>c_max\<close> are read by the HID
  translator only.
\<close>

record control_config =
  c_type :: string
  c_byte :: "nat option"
  c_bit :: "nat option"
  c_bytes :: "nat list option"
  c_signed :: bool
  c_resolution :: "nat option"
  c_min :: "int option"
  c_max :: "int option"

text \<open>
  One entry of a parsed state: \<^verbatim>\<open>{ value, type, config }\<close>, to which
  \<^verbatim>\<open>_computeDeltas\<close> adds \<^verbatim>\<open>absolutePosition\<close> for delta-type controls. The value is
  \<open>None\<close> when it is \<^verbatim>\<open>undefined\<close>.
\<close>

record control_state =
  s_value :: "int option"
  s_type :: string
  s_config :: control_config
  s_absolutePosition :: jsval

text \<open>An object with string keys, in property order.\<close>

type_synonym 'a obj = "(string \<times> 'a) list"

text \<open>\<^verbatim>\<open>obj[key] = v\<close>: an existing property keeps its place, a new one goes last.\<close>

fun obj_set :: "'a obj \<Rightarrow> string \<Rightarrow> 'a \<Rightarrow> 'a obj" where
  "obj_set [] k v = [(k, v)]"
| "obj_set ((k', v') # rest) k v =
     (if k' = k then (k, v) # rest else (k', v') # obj_set rest k v)"

type_synonym hid_state = "control_state obj"

text \<open>\<^verbatim>\<open>data[i]\<close> on the report buffer: a byte, or \<^verbatim>\<open>undefined\<close> past its end.\<close>

definition byte_at :: "nat list \<Rightarrow> nat \<Rightarrow> nat option" where
  "byte_at data i = (if i < length data then Some (data ! i) else None)"

text \<open>
  The inner loop over \<^verbatim>\<open>controlConfig.bytes\<close>:
  \<^verbatim>\<open>rawValue |= (byte << (i * 8))\<close> on 32-bit integers (the shift count is taken
  modulo 32); a byte that is missing from the report is skipped.
\<close>

fun read_bytes :: "nat list \<Rightarrow> nat list \<Rightarrow> nat \<Rightarrow> 32 word \<Rightarrow> 32 word" where
  "read_bytes data [] i rawValue = rawValue"
| "read_bytes data (byteIndex # rest) i rawValue =
     (case byte_at data byteIndex of
        None \<Rightarrow> read_bytes data rest (i + 1) rawValue
      | Some byte \<Rightarrow>
          read_bytes data rest (i + 1)
            (or rawValue (push_bit ((i * 8) mod 32) (word_of_nat byte))))"

text \<open>
  The value of one control, or \<open>None\<close> when the loop \<^verbatim>\<open>continue\<close>s and the control
  is left out of the state. The inner option is the value stored, \<open>None\<close> for
  \<^verbatim>\<open>undefined\<close>.
\<close>

definition parse_control :: "nat list \<Rightarrow> control_config \<Rightarrow> int option option" where
  "parse_control data cfg =
     (if c_type cfg = ''button'' then
        (case (case c_byte cfg of None \<Rightarrow> None | Some b \<Rightarrow> byte_at data b) of
           None \<Rightarrow> None
         | Some byte \<Rightarrow>
             Some (Some (int ((byte div 2 ^ ((case c_bit cfg of None \<Rightarrow> 0 | Some b \<Rightarrow> b) mod 32)) mod 2))))
      else case c_bytes cfg of
        Some bytes \<Rightarrow>
          let rawValue = sint (read_bytes data bytes 0 0);
              signedRes = (c_signed cfg \<and> c_resolution cfg \<noteq> None \<and> c_resolution cfg \<noteq> Some 0)
          in if signedRes then
               (let maxVal = sint (push_bit (the (c_resolution cfg) mod 32) (1 :: 32 word))
                in if 2 * rawValue \<ge> maxVal then Some (Some (rawValue - maxVal))
                   else Some (Some rawValue))
             else Some (Some rawValue)
      | None \<Rightarrow>
          (case c_byte cfg of
             Some b \<Rightarrow> Some (map_option int (byte_at data b))
           | None \<Rightarrow> Some None))"

text \<open>
  The parser that \<^verbatim>\<open>_createParser(config)\<close> returns, applied to a report: the
  controls in the order of \<^verbatim>\<open>Object.entries(parsingConfig.controls)\<close>.
\<close>

fun parser :: "control_config obj \<Rightarrow> nat list \<Rightarrow> hid_state \<Rightarrow> hid_state" where
  "parser [] data state = state"
| "parser ((controlName, controlConfig) # rest) data state =
     (case parse_control data controlConfig of
        None \<Rightarrow> parser rest data state
      | Some v \<Rightarrow>
          parser rest data
            (obj_set state controlName
               \<lparr> s_value = v, s_type = c_type controlConfig, s_config = controlConfig,
                 s_absolutePosition = JUndefined \<rparr>))"

text \<open>Number arithmetic where an operand may be \<^verbatim>\<open>undefined\<close> or \<^verbatim>\<open>NaN\<close>.\<close>

fun js_add :: "jsval \<Rightarrow> jsval \<Rightarrow> jsval" where
  "js_add (JNum a) (JNum b) = JNum (a + b)"
| "js_add _ _ = JNaN"

fun js_sub :: "jsval \<Rightarrow> jsval \<Rightarrow> jsval" where
  "js_sub (JNum a) (JNum b) = JNum (a - b)"
| "js_sub _ _ = JNaN"

fun js_div :: "jsval \<Rightarrow> jsval \<Rightarrow> jsval" where
  "js_div (JNum a) (JNum b) =
     (if b \<noteq> 0 then JNum (a / b) else if a = 0 then JNaN else JInf (a > 0))"
| "js_div _ _ = JNaN"

text \<open>\<^verbatim>\<open>x > 0\<close>.\<close>

fun js_positive :: "jsval \<Rightarrow> bool" where
  "js_positive (JNum a) = (a > 0)"
| "js_positive (JInf s) = s"
| "js_positive (JBool b) = b"
| "js_positive _ = False"

text \<open>\<^verbatim>\<open>x || d\<close>.\<close>

definition js_or :: "jsval \<Rightarrow> jsval \<Rightarrow> jsval" where
  "js_or x d = (if truthy x then x else d)"

text \<open>A delta of \<^verbatim>\<open>_computeDeltas\<close>.\<close>

record control_delta =
  d_control :: string
  d_type :: string
  d_value :: jsval
  d_previousValue :: jsval
  d_delta :: jsval

text \<open>
  The loop of \<^verbatim>\<open>_computeDeltas\<close> over \<^verbatim>\<open>Object.entries(currentState)\<close>. It
  returns the deltas and the current state, in which the entries of delta-type controls
  that changed carry their new \<^verbatim>\<open>absolutePosition\<close>.
\<close>

fun compute_loop :: "hid_state \<Rightarrow> hid_state \<Rightarrow> control_delta list \<times> hid_state" where
  "compute_loop previousState [] = ([], [])"
| "compute_loop previousState ((controlName, controlState) # rest) =
     (let previousValue = (case map_of previousState controlName of
                              None \<Rightarrow> None | Some p \<Rightarrow> s_value p);
          currentValue = s_value controlState;
          (deltas, rest') = compute_loop previousState rest
      in if previousValue \<noteq> currentValue then
           (if s_type controlState = ''delta'' then
              (let v = js_add (js_or (case map_of previousState controlName of
                                        None \<Rightarrow> JUndefined
                                      | Some p \<Rightarrow> s_absolutePosition p) (JNum 0))
                              (num_of currentValue)
               in (\<lparr> d_control = controlName, d_type = s_type controlState, d_value = v,
                      d_previousValue = num_of previousValue, d_delta = num_of currentValue \<rparr>
                     # deltas,
                   (controlName, controlState\<lparr> s_absolutePosition := v \<rparr>) # rest'))
            else
              (\<lparr> d_control = controlName, d_type = s_type controlState,
                 d_value = num_of currentValue, d_previousValue = num_of previousValue,
                 d_delta = js_sub (num_of currentValue) (js_or (num_of previousValue) (JNum 0)) \<rparr>
                 # deltas,
               (controlName, controlState) # rest'))
         else (deltas, (controlName, controlState) # rest'))"

text \<open>
  The device record of \<^verbatim>\<open>this.devices\<close>, as far as polling uses it.
\<close>

record device_info =
  parsing_controls :: "control_config obj"
  state :: hid_state
  previousState :: hid_state

type_synonym hid_manager = "string \<rightharpoonup> device_info"

text \<open>\<^verbatim>\<open>connectDevice\<close> stores the device with two empty states.\<close>

definition connectDevice :: "hid_manager \<Rightarrow> string \<Rightarrow> control_config obj \<Rightarrow> hid_manager" where
  "connectDevice mgr dev controls =
     mgr(dev \<mapsto> \<lparr> parsing_controls = controls, state = [], previousState = [] \<rparr>)"

text \<open>
  \<^verbatim>\<open>_computeDeltas(deviceId, currentState)\<close>: the comparison is against
  \<^verbatim>\<open>deviceInfo.previousState\<close>.
\<close>

definition computeDeltas :: "hid_manager \<Rightarrow> string \<Rightarrow> hid_state \<Rightarrow> control_delta list \<times> hid_state" where
  "computeDeltas mgr dev currentState =
     (case mgr dev of
        None \<Rightarrow> ([], currentState)
      | Some deviceInfo \<Rightarrow> compute_loop (previousState deviceInfo) currentState)"

text \<open>The input event emitted for a delta.\<close>

record hid_event =
  h_deviceId :: string
  h_control :: string
  h_type :: string
  h_value :: jsval
  h_delta :: jsval
  h_timestamp :: int
  h_rawState :: hid_state

text \<open>
  \<^verbatim>\<open>_pollDevice(deviceId)\<close>. \<open>data\<close> is what \<^verbatim>\<open>readTimeout(10)\<close> returns: \<open>Inl\<close> when
  it throws (the error is caught and at most logged), \<open>Inr None\<close> for no data, else the
  bytes of the report. \<open>now i\<close> is the clock reading for the \<open>i\<close>-th event of this poll.
  The result is the list of emitted input events and the manager afterwards.
\<close>

definition pollDevice ::
  "(nat \<Rightarrow> int) \<Rightarrow> hid_manager \<Rightarrow> string \<Rightarrow> string + nat list option \<Rightarrow> hid_event list \<times> hid_manager" where
  "pollDevice now mgr dev data =
     (case mgr dev of
        None \<Rightarrow> ([], mgr)
      | Some deviceInfo \<Rightarrow>
          (case data of
             Inl _ \<Rightarrow> ([], mgr)
           | Inr None \<Rightarrow> ([], mgr)
           | Inr (Some bytes) \<Rightarrow>
               if bytes = [] then ([], mgr)
               else
                 let parsed = parser (parsing_controls deviceInfo) bytes [];
                     (deltas, currentState) = computeDeltas mgr dev parsed;
                     deviceInfo' = deviceInfo\<lparr> previousState := state deviceInfo,
                                               state := currentState \<rparr>
                 in (map (\<lambda>(i, delta).
                            \<lparr> h_deviceId = dev, h_control = d_control delta,
                              h_type = d_type delta, h_value = d_value delta,
                              h_delta = d_delta delta, h_timestamp = now i,
                              h_rawState = currentState \<rparr>)
                         (enumerate 0 deltas),
                     mgr(dev \<mapsto> deviceInfo'))))"

text \<open>A device with a single button at bit 0 of byte 0 of the report.\<close>

definition button_control :: control_config where
  "button_control =
     \<lparr> c_type = ''button'', c_byte = Some 0, c_bit = Some 0, c_bytes = None,
       c_signed = False, c_resolution = None, c_min = None, c_max = None \<rparr>"

section \<open>Mapping configuration and its validation\<close>

text \<open>
  The action template \<^verbatim>\<open>mapping.action\<close>. Absent values are \<open>JUndefined\<close>; the
  expression properties are strings when present. \<open>t_target\<close> and \<open>t_priority\<close> are
  the properties \<^verbatim>\<open>action.target\<close> and \<^verbatim>\<open>action.priority\<close> that the HID translator
  reads.
\<close>

record action_template =
  t_type :: jsval
  t_command :: jsval
  t_deck :: jsval
  t_value :: jsval
  t_valueExpression :: "string option"
  t_direction :: "string option"
  t_mode :: "string option"
  t_emitRelease :: bool
  t_target :: jsval
  t_priority :: jsval

text \<open>The wire pattern \<^verbatim>\<open>mapping.midi\<close>; an absent \<^verbatim>\<open>type\<close> is the empty string
  (both print as nothing in the lookup key).\<close>

record midi_pattern =
  mp_type :: string
  mp_channel :: "int option"
  mp_note :: "int option"
  mp_controller :: "int option"

text \<open>A control mapping: one entry of \<^verbatim>\<open>mapping.mappings\<close>.\<close>

record control_mapping =
  cm_midi :: "midi_pattern option"
  cm_action :: "action_template option"
  cm_target :: jsval
  cm_priority :: jsval
  cm_condition :: "string option"

record device_section =
  dv_name :: jsval
  dv_protocol :: jsval

text \<open>A device mapping file after \<^verbatim>\<open>JSON.parse\<close>.\<close>

record mapping_config =
  cfg_device :: "device_section option"
  cfg_mappings :: "control_mapping obj option"
  cfg_parsing :: "control_config obj option"

datatype config_error =
    MissingDevice
  | MissingDeviceName
  | BadProtocol
  | MissingMappings
  | MissingAction string
  | BadTarget string
  | BadPriority string

text \<open>The loop of \<^verbatim>\<open>validateDeviceMapping\<close> over the entries; keys that start with
  an underscore are skipped.\<close>

fun validate_entries :: "control_mapping obj \<Rightarrow> config_error + unit" where
  "validate_entries [] = Inr ()"
| "validate_entries ((key, m) # rest) =
     (if take 1 key = ''_'' then validate_entries rest
      else if cm_action m = None then Inl (MissingAction key)
      else if \<not> truthy (cm_target m) \<or>
              cm_target m \<notin> {JStr ''audio'', JStr ''app'', JStr ''ui''} then Inl (BadTarget key)
      else if \<not> truthy (cm_priority m) \<or>
              cm_priority m \<notin> {JStr ''critical'', JStr ''high'', JStr ''normal''}
           then Inl (BadPriority key)
      else validate_entries rest)"

text \<open>\<^verbatim>\<open>validateDeviceMapping(mapping)\<close>: \<open>Inl\<close> is the error thrown.\<close>

definition validateDeviceMapping :: "mapping_config \<Rightarrow> config_error + unit" where
  "validateDeviceMapping mapping =
     (case cfg_device mapping of
        None \<Rightarrow> Inl MissingDevice
      | Some device \<Rightarrow>
          if \<not> truthy (dv_name device) then Inl MissingDeviceName
          else if \<not> truthy (dv_protocol device) \<or>
                  dv_protocol device \<notin> {JStr ''midi'', JStr ''hid''} then Inl BadProtocol
          else (case cfg_mappings mapping of
                  None \<Rightarrow> Inl MissingMappings
                | Some entries \<Rightarrow> validate_entries entries))"

text \<open>
  What a \<^verbatim>\<open>throw\<close> hands to a \<^verbatim>\<open>catch\<close> block: the thrown value, and what the
  catch blocks of the translators can observe of an object beyond its plain properties:
  whether reading its \<^verbatim>\<open>message\<close> property, and its \<^verbatim>\<open>stack\<close> property, throws in
  turn (an accessor property), and what. \<open>None\<close> means that the read returns.
\<close>

datatype thrown = Thrown jsval "thrown option" "thrown option"

text \<open>An \<^verbatim>\<open>Error\<close> object of the given name, as the host throws it.\<close>

definition error_object :: "string \<Rightarrow> thrown" where
  "error_object name = Thrown (JObj [(''name'', JStr name)]) None None"

text \<open>
  \<^verbatim>\<open>error.message\<close> and \<^verbatim>\<open>error.stack\<close> in a catch block: \<open>Some t\<close> when the read
  throws \<open>t\<close>. Reading a property of \<^verbatim>\<open>null\<close> or \<^verbatim>\<open>undefined\<close> throws a
  \<^verbatim>\<open>TypeError\<close>.
\<close>

fun read_message :: "thrown \<Rightarrow> thrown option" where
  "read_message (Thrown v onMessage onStack) =
     (if v = JNull \<or> v = JUndefined then Some (error_object ''TypeError'') else onMessage)"

fun read_stack :: "thrown \<Rightarrow> thrown option" where
  "read_stack (Thrown v onMessage onStack) =
     (if v = JNull \<or> v = JUndefined then Some (error_object ''TypeError'') else onStack)"

text \<open>
  \<^verbatim>\<open>new Function(...paramNames, body)\<close> applied to the argument values: the host's
  evaluation of an expression, which returns a value or throws (\<open>Inl\<close>, also for a
  syntax error in the body). Calls of the logger are taken to return.
\<close>

type_synonym js_function = "string list \<Rightarrow> string \<Rightarrow> jsval list \<Rightarrow> thrown + jsval"

text \<open>\<^verbatim>\<open>mapping?.device?.name || 'Unknown'\<close>.\<close>

definition device_name_of :: "mapping_config \<Rightarrow> jsval" where
  "device_name_of mapping =
     (case cfg_device mapping of
        None \<Rightarrow> JStr ''Unknown''
      | Some device \<Rightarrow> js_or (dv_name device) (JStr ''Unknown''))"

text \<open>A present, non-empty expression string.\<close>

definition present :: "string option \<Rightarrow> bool" where
  "present e = (case e of None \<Rightarrow> False | Some s \<Rightarrow> s \<noteq> [])"

section \<open>MIDITranslator\<close>

record midi_translator =
  mt_mappings :: "control_mapping obj"
  mt_deviceName :: jsval
  mt_lookupTable :: "string \<rightharpoonup> string"

text \<open>\<^verbatim>\<open>parts.join(':')\<close>.\<close>

fun join_colon :: "string list \<Rightarrow> string" where
  "join_colon [] = []"
| "join_colon [p] = p"
| "join_colon (p # q # ps) = p @ '':'' @ join_colon (q # ps)"

definition opt_int_string :: "int option \<Rightarrow> string" where
  "opt_int_string x = (case x of None \<Rightarrow> [] | Some i \<Rightarrow> string_of_int i)"

definition createLookupKey :: "midi_event \<Rightarrow> string" where
  "createLookupKey midiEvent =
     join_colon ([mtype midiEvent, string_of_int (channel midiEvent)] @
        (case mnote midiEvent of
           Some n \<Rightarrow> [''note'', string_of_int n]
         | None \<Rightarrow>
             (case controller midiEvent of
                Some c \<Rightarrow> [''cc'', string_of_int c]
              | None \<Rightarrow> [])))"

definition createLookupKeyFromConfig :: "midi_pattern \<Rightarrow> string" where
  "createLookupKeyFromConfig midiConfig =
     join_colon ([mp_type midiConfig, opt_int_string (mp_channel midiConfig)] @
        (case mp_note midiConfig of
           Some n \<Rightarrow> [''note'', string_of_int n]
         | None \<Rightarrow>
             (case mp_controller midiConfig of
                Some c \<Rightarrow> [''cc'', string_of_int c]
              | None \<Rightarrow> [])))"

text \<open>\<^verbatim>\<open>_buildLookupTable\<close>: a later entry with the same lookup key replaces an
  earlier one.\<close>

fun buildLookupTable :: "control_mapping obj \<Rightarrow> (string \<rightharpoonup> string) \<Rightarrow> (string \<rightharpoonup> string)" where
  "buildLookupTable [] table = table"
| "buildLookupTable ((key, m) # rest) table =
     (case cm_midi m of
        None \<Rightarrow> buildLookupTable rest table
      | Some midiConfig \<Rightarrow>
          buildLookupTable rest (table(createLookupKeyFromConfig midiConfig \<mapsto> key)))"

text \<open>The constructor; it throws when the file has no \<^verbatim>\<open>mappings\<close> object.\<close>

definition MIDITranslator_new :: "mapping_config \<Rightarrow> thrown + midi_translator" where
  "MIDITranslator_new mapping =
     (case cfg_mappings mapping of
        None \<Rightarrow> Inl (error_object ''TypeError'')
      | Some entries \<Rightarrow>
          Inr \<lparr> mt_mappings = entries, mt_deviceName = device_name_of mapping,
                mt_lookupTable = buildLookupTable entries Map.empty \<rparr>)"

text \<open>\<^verbatim>\<open>midiEvent.value || midiEvent.velocity || 0\<close> and \<^verbatim>\<open>midiEvent.velocity || 0\<close>.\<close>

definition nonzero :: "int option \<Rightarrow> bool" where
  "nonzero x = (case x of None \<Rightarrow> False | Some i \<Rightarrow> i \<noteq> 0)"

definition expr_value :: "midi_event \<Rightarrow> int" where
  "expr_value midiEvent =
     (if nonzero (val midiEvent) then the (val midiEvent)
      else if nonzero (velocity midiEvent) then the (velocity midiEvent) else 0)"

definition expr_velocity :: "midi_event \<Rightarrow> int" where
  "expr_velocity midiEvent =
     (if nonzero (velocity midiEvent) then the (velocity midiEvent) else 0)"

text \<open>
  \<^verbatim>\<open>_evaluateExpression(expression, midiEvent)\<close> of the MIDI translator. What the
  evaluation throws is caught; the catch block reads \<^verbatim>\<open>error.message\<close> for the log
  entry and then returns \<^verbatim>\<open>value\<close>. When that read throws, the call throws (\<open>Inl\<close>).
\<close>

definition MIDI_evaluateExpression :: "js_function \<Rightarrow> string \<Rightarrow> midi_event \<Rightarrow> thrown + jsval" where
  "MIDI_evaluateExpression ev expression midiEvent =
     (let v = expr_value midiEvent; vel = expr_velocity midiEvent
      in case ev [''value'', ''velocity''] (''return '' @ expression)
                 [JNum (of_int v), JNum (of_int vel)] of
           Inl error \<Rightarrow>
             (case read_message error of
                Some t \<Rightarrow> Inl t
              | None \<Rightarrow> Inr (JNum (of_int v)))
         | Inr result \<Rightarrow> Inr result)"

text \<open>
  \<^verbatim>\<open>_buildAction(midiEvent, mapping)\<close> of the MIDI translator. It throws a
  \<^verbatim>\<open>TypeError\<close> when the mapping has no \<^verbatim>\<open>action\<close>, and what
  \<^verbatim>\<open>_evaluateExpression\<close> throws, the value expression being evaluated before the
  direction expression.
\<close>

definition MIDI_buildAction :: "js_function \<Rightarrow> midi_event \<Rightarrow> control_mapping \<Rightarrow> thrown + action" where
  "MIDI_buildAction ev midiEvent mapping =
     (case cm_action mapping of
        None \<Rightarrow> Inl (error_object ''TypeError'')
      | Some tpl \<Rightarrow>
          let action0 = \<lparr> a_type = t_type tpl, a_command = t_command tpl,
                          a_target = cm_target mapping, a_priority = cm_priority mapping,
                          a_timestamp = timestamp midiEvent, a_deviceId = deviceId midiEvent,
                          a_from = JUndefined, a_deck = JUndefined, a_value = JUndefined,
                          a_delta = JUndefined, a_direction = JUndefined, a_mode = JUndefined,
                          a_rawValue = JUndefined \<rparr>;
              action1 = (if truthy (t_deck tpl) then action0\<lparr> a_deck := t_deck tpl \<rparr> else action0);
              valued =
                (if t_value tpl \<noteq> JUndefined then Inr (action1\<lparr> a_value := t_value tpl \<rparr>)
                 else if present (t_valueExpression tpl) then
                   (case MIDI_evaluateExpression ev (the (t_valueExpression tpl)) midiEvent of
                      Inl t \<Rightarrow> Inl t
                    | Inr v \<Rightarrow> Inr (action1\<lparr> a_value := v \<rparr>))
                 else if highRes midiEvent \<and> normalized midiEvent \<noteq> None then
                   Inr (action1\<lparr> a_value := JNum (the (normalized midiEvent)) \<rparr>)
                 else
                   (let rawValue = (if nonzero (velocity midiEvent)
                                    then num_of (velocity midiEvent) else num_of (val midiEvent))
                    in if mtype midiEvent = ''cc''
                       then Inr (action1\<lparr> a_value := js_div rawValue (JNum 127) \<rparr>)
                       else Inr (action1\<lparr> a_value := rawValue \<rparr>)))
          in (case valued of
                Inl t \<Rightarrow> Inl t
              | Inr action2 \<Rightarrow>
                  (case (if present (t_direction tpl) then
                           (case MIDI_evaluateExpression ev (the (t_direction tpl)) midiEvent of
                              Inl t \<Rightarrow> Inl t
                            | Inr d \<Rightarrow> Inr (action2\<lparr> a_direction := d \<rparr>))
                         else Inr action2) of
                     Inl t \<Rightarrow> Inl t
                   | Inr action3 \<Rightarrow>
                       Inr (if t_type tpl = JStr ''transport'' \<and> mtype midiEvent = ''noteon'' then
                              action3\<lparr> a_value := JBool (case velocity midiEvent of
                                                           None \<Rightarrow> False | Some v \<Rightarrow> v > 0) \<rparr>
                            else action3))))"

text \<open>
  \<^verbatim>\<open>translate(midiEvent)\<close> of the MIDI translator: \<open>Inr None\<close> is the result
  \<^verbatim>\<open>null\<close>, returned when the lookup finds no (non-empty) mapping key and when
  \<^verbatim>\<open>_buildAction\<close> throws. The catch block reads \<^verbatim>\<open>error.message\<close> of what was
  thrown before it returns; when that read throws, \<open>translate\<close> throws (\<open>Inl\<close>).
\<close>

definition MIDI_translate :: "js_function \<Rightarrow> midi_translator \<Rightarrow> midi_event \<Rightarrow> thrown + action option" where
  "MIDI_translate ev tr midiEvent =
     (case mt_lookupTable tr (createLookupKey midiEvent) of
        None \<Rightarrow> Inr None
      | Some mappingKey \<Rightarrow>
          if mappingKey = [] then Inr None
          else (case map_of (mt_mappings tr) mappingKey of
                  None \<Rightarrow> Inr None
                | Some mapping \<Rightarrow>
                    (case MIDI_buildAction ev midiEvent mapping of
                       Inl error \<Rightarrow>
                         (case read_message error of
                            Some t \<Rightarrow> Inl t
                          | None \<Rightarrow> Inr None)
                     | Inr action \<Rightarrow> Inr (Some action))))"

section \<open>HIDTranslator\<close>

text \<open>The translator object: the mapping it was built from and the modifier-state
  side table (control name to pressed).\<close>

record hid_translator =
  ht_mappings :: "control_mapping obj"
  ht_parsing :: "control_config obj option"
  ht_deviceName :: jsval
  modifierState :: "bool obj"

definition HIDTranslator_new :: "mapping_config \<Rightarrow> thrown + hid_translator" where
  "HIDTranslator_new mapping =
     (case cfg_mappings mapping of
        None \<Rightarrow> Inl (error_object ''TypeError'')
      | Some entries \<Rightarrow>
          Inr \<lparr> ht_mappings = entries, ht_parsing = cfg_parsing mapping,
                ht_deviceName = device_name_of mapping, modifierState = [] \<rparr>)"

text \<open>The modifier states spread into a context object: \<^verbatim>\<open>{ ...ctx, ...modifierState }\<close>.\<close>

fun spread :: "jsval obj \<Rightarrow> bool obj \<Rightarrow> jsval obj" where
  "spread ctx [] = ctx"
| "spread ctx ((k, b) # rest) = spread (obj_set ctx k (JBool b)) rest"

definition modifiers_object :: "bool obj \<Rightarrow> jsval" where
  "modifiers_object ms = JObj (map (\<lambda>(k, b). (k, JBool b)) ms)"

definition expression_context :: "hid_translator \<Rightarrow> hid_event \<Rightarrow> jsval obj" where
  "expression_context tr hidEvent =
     spread [(''value'', h_value hidEvent), (''delta'', h_delta hidEvent),
             (''state'', modifiers_object (modifierState tr))] (modifierState tr)"

definition condition_context :: "hid_translator \<Rightarrow> jsval obj" where
  "condition_context tr =
     spread [(''state'', modifiers_object (modifierState tr))] (modifierState tr)"

text \<open>
  \<^verbatim>\<open>_evaluateExpression(expression, hidEvent, controlConfig)\<close> of the HID
  translator: a thrown error is caught, the catch block reads \<^verbatim>\<open>error.message\<close> and
  then returns \<^verbatim>\<open>hidEvent.value\<close>; when that read throws, the call throws.
\<close>

definition HID_evaluateExpression ::
  "js_function \<Rightarrow> hid_translator \<Rightarrow> string \<Rightarrow> hid_event \<Rightarrow> thrown + jsval" where
  "HID_evaluateExpression ev tr expression hidEvent =
     (let context = expression_context tr hidEvent
      in case ev (map fst context) (''return '' @ expression) (map snd context) of
           Inl error \<Rightarrow>
             (case read_message error of
                Some t \<Rightarrow> Inl t
              | None \<Rightarrow> Inr (h_value hidEvent))
         | Inr result \<Rightarrow> Inr result)"

text \<open>\<^verbatim>\<open>_evaluateCondition(condition)\<close>: the same catch block, returning
  \<^verbatim>\<open>false\<close>.\<close>

definition HID_evaluateCondition :: "js_function \<Rightarrow> hid_translator \<Rightarrow> string \<Rightarrow> thrown + jsval" where
  "HID_evaluateCondition ev tr condition =
     (let context = condition_context tr
      in case ev (map fst context) (''return '' @ condition) (map snd context) of
           Inl error \<Rightarrow>
             (case read_message error of
                Some t \<Rightarrow> Inl t
              | None \<Rightarrow> Inr (JBool False))
         | Inr result \<Rightarrow> Inr result)"

text \<open>
  The last step of \<^verbatim>\<open>_buildAction\<close> of the HID translator: the value expression,
  when the mapping has one, replaces the value.
\<close>

definition HID_applyValueExpression ::
  "js_function \<Rightarrow> hid_translator \<Rightarrow> hid_event \<Rightarrow> action_template \<Rightarrow> action \<Rightarrow> thrown + action option" where
  "HID_applyValueExpression ev tr hidEvent tpl action =
     (if present (t_valueExpression tpl) then
        (case HID_evaluateExpression ev tr (the (t_valueExpression tpl)) hidEvent of
           Inl t \<Rightarrow> Inl t
         | Inr v \<Rightarrow> Inr (Some (action\<lparr> a_value := v \<rparr>)))
      else Inr (Some action))"

text \<open>
  The end of \<^verbatim>\<open>_buildAction\<close> of the HID translator, after the switch on the control
  type: the conditional mapping (null when the condition is not met), then the value
  expression.
\<close>

definition HID_finish ::
  "js_function \<Rightarrow> hid_translator \<Rightarrow> hid_event \<Rightarrow> control_mapping \<Rightarrow> action_template \<Rightarrow> action \<Rightarrow> thrown + action option" where
  "HID_finish ev tr hidEvent mapping tpl action =
     (if present (cm_condition mapping) then
        (case HID_evaluateCondition ev tr (the (cm_condition mapping)) of
           Inl t \<Rightarrow> Inl t
         | Inr conditionMet \<Rightarrow>
             if \<not> truthy conditionMet then Inr None
             else HID_applyValueExpression ev tr hidEvent tpl action)
      else HID_applyValueExpression ev tr hidEvent tpl action)"

text \<open>
  \<^verbatim>\<open>_buildAction(hidEvent, mapping)\<close> of the HID translator, for a mapping file with
  a parsing section \<open>controls\<close>. \<open>Inl\<close> is what it throws: a \<^verbatim>\<open>TypeError\<close> when
  the mapping has no \<^verbatim>\<open>action\<close>, and what the evaluators throw. \<open>Inr None\<close> is the
  result \<^verbatim>\<open>null\<close>.
\<close>

definition HID_buildAction ::
  "js_function \<Rightarrow> hid_translator \<Rightarrow> control_config obj \<Rightarrow> hid_event \<Rightarrow> control_mapping \<Rightarrow> thrown + action option" where
  "HID_buildAction ev tr controls hidEvent mapping =
     (case map_of controls (h_control hidEvent) of
        None \<Rightarrow> Inr None
      | Some controlConfig \<Rightarrow>
          (case cm_action mapping of
             None \<Rightarrow> Inl (error_object ''TypeError'')
           | Some tpl \<Rightarrow>
               let action0 = \<lparr> a_type = t_type tpl, a_command = t_command tpl,
                               a_target = js_or (t_target tpl) (JStr ''audio''),
                               a_priority = js_or (t_priority tpl) (JStr ''normal''),
                               a_timestamp = h_timestamp hidEvent,
                               a_deviceId = h_deviceId hidEvent,
                               a_from = ht_deviceName tr, a_deck = JUndefined,
                               a_value = JUndefined, a_delta = JUndefined,
                               a_direction = JUndefined, a_mode = JUndefined,
                               a_rawValue = JUndefined \<rparr>;
                   action1 = (if truthy (t_deck tpl) then action0\<lparr> a_deck := t_deck tpl \<rparr>
                              else action0)
               in if c_type controlConfig = ''delta'' then
                    (let action2 = action1\<lparr> a_delta := h_delta hidEvent,
                                              a_value := h_value hidEvent \<rparr>
                     in if present (t_mode tpl) then
                          (case HID_evaluateExpression ev tr (the (t_mode tpl)) hidEvent of
                             Inl t \<Rightarrow> Inl t
                           | Inr mode \<Rightarrow>
                               HID_finish ev tr hidEvent mapping tpl (action2\<lparr> a_mode := mode \<rparr>))
                        else HID_finish ev tr hidEvent mapping tpl action2)
                  else if c_type controlConfig = ''button'' then
                    (let pressed = js_positive (h_value hidEvent);
                         action2 = action1\<lparr> a_value := JBool pressed \<rparr>
                     in if \<not> pressed \<and> \<not> t_emitRelease tpl then Inr None
                        else HID_finish ev tr hidEvent mapping tpl action2)
                  else if c_type controlConfig = ''absolute'' then
                    (let min = (case c_min controlConfig of None \<Rightarrow> 0 | Some m \<Rightarrow> m);
                         max = (if c_max controlConfig = None \<or> c_max controlConfig = Some 0
                                then sint (push_bit ((case c_resolution controlConfig of
                                                         None \<Rightarrow> 0 | Some r \<Rightarrow> r) mod 32)
                                                    (1 :: 32 word)) - 1
                                else the (c_max controlConfig));
                         action2 = action1\<lparr>
                           a_value := js_div (js_sub (h_value hidEvent) (JNum (of_int min)))
                                             (JNum (of_int (max - min))),
                           a_rawValue := h_value hidEvent \<rparr>
                     in HID_finish ev tr hidEvent mapping tpl action2)
                  else if c_type controlConfig = ''encoder'' then
                    (let action2 = action1\<lparr>
                           a_delta := h_delta hidEvent,
                           a_direction := (if js_positive (h_delta hidEvent)
                                           then JStr ''up'' else JStr ''down'') \<rparr>
                     in if present (t_direction tpl) then
                          (case HID_evaluateExpression ev tr (the (t_direction tpl)) hidEvent of
                             Inl t \<Rightarrow> Inl t
                           | Inr direction \<Rightarrow>
                               HID_finish ev tr hidEvent mapping tpl
                                 (action2\<lparr> a_direction := direction \<rparr>))
                        else HID_finish ev tr hidEvent mapping tpl action2)
                  else HID_finish ev tr hidEvent mapping tpl action1))"

text \<open>
  \<^verbatim>\<open>translate(hidEvent)\<close> of the HID translator: \<open>Inr\<close> with the result (\<open>None\<close>
  for \<^verbatim>\<open>null\<close>) or \<open>Inl\<close> with what the call throws, each with the translator
  afterwards. The
  read of \<^verbatim>\<open>this.mapping.parsing.controls\<close> is outside the \<^verbatim>\<open>try\<close> block, so a
  mapping file without a parsing section makes the call throw a \<^verbatim>\<open>TypeError\<close>. What
  \<^verbatim>\<open>_buildAction\<close> throws is caught; the catch block reads \<^verbatim>\<open>error.message\<close> and
  \<^verbatim>\<open>error.stack\<close> and then returns \<^verbatim>\<open>null\<close>, and throws when one of the reads
  throws. The modifier table is updated before \<^verbatim>\<open>_buildAction\<close> is called and keeps
  the update when the call throws.
\<close>

definition HID_translate ::
  "js_function \<Rightarrow> hid_translator \<Rightarrow> hid_event \<Rightarrow>
     thrown \<times> hid_translator + action option \<times> hid_translator" where
  "HID_translate ev tr hidEvent =
     (let controlName = h_control hidEvent
      in case map_of (ht_mappings tr) controlName of
           None \<Rightarrow> Inr (None, tr)
         | Some mapping \<Rightarrow>
             (case ht_parsing tr of
                None \<Rightarrow> Inl (error_object ''TypeError'', tr)
              | Some controls \<Rightarrow>
                  let isModifier = (case map_of controls controlName of
                                      None \<Rightarrow> False
                                    | Some parsingConfig \<Rightarrow> c_type parsingConfig = ''modifier'');
                      tr1 = (if isModifier then
                               tr\<lparr> modifierState :=
                                     obj_set (modifierState tr) controlName
                                       (js_positive (h_value hidEvent)) \<rparr>
                             else tr)
                  in if isModifier \<and> cm_action mapping = None then Inr (None, tr1)
                     else (case HID_buildAction ev tr1 controls hidEvent mapping of
                             Inl error \<Rightarrow>
                               (case read_message error of
                                  Some t \<Rightarrow> Inl (t, tr1)
                                | None \<Rightarrow>
                                    (case read_stack error of
                                       Some t \<Rightarrow> Inl (t, tr1)
                                     | None \<Rightarrow> Inr (None, tr1)))
                           | Inr result \<Rightarrow> Inr (result, tr1))))"

section \<open>Example inputs\<close>


text \<open>An action template with a type, a command and a deck and nothing else.\<close>

definition template :: "string \<Rightarrow> string \<Rightarrow> jsval \<Rightarrow> action_template" where
  "template ty cmd deck =
     \<lparr> t_type = JStr ty, t_command = JStr cmd, t_deck = deck, t_value = JUndefined,
       t_valueExpression = None, t_direction = None, t_mode = None, t_emitRelease = False,
       t_target = JUndefined, t_priority = JUndefined \<rparr>"


text \<open>An evaluator for which every expression throws a \<^verbatim>\<open>SyntaxError\<close>.\<close>

definition always_throws :: js_function where
  "always_throws names body args = Inl (error_object ''SyntaxError'')"


text \<open>An input event of the HID manager (without the raw state).\<close>

definition hid_input :: "string \<Rightarrow> string \<Rightarrow> string \<Rightarrow> jsval \<Rightarrow> jsval \<Rightarrow> int \<Rightarrow> hid_event" where
  "hid_input dev control ty v d ts =
     \<lparr> h_deviceId = dev, h_control = control, h_type = ty, h_value = v, h_delta = d,
       h_timestamp = ts, h_rawState = [] \<rparr>"

text \<open>A modifier control read from byte 1 of the report.\<close>

definition shift_control :: control_config where
  "shift_control =
     \<lparr> c_type = ''modifier'', c_byte = Some 1, c_bit = None, c_bytes = None,
       c_signed = False, c_resolution = None, c_min = None, c_max = None \<rparr>"

text \<open>
  The HID mapping file
  \<^verbatim>\<open>{device: {name: "Deck", protocol: "hid"}, parsing: {controls: {play: {type: "button",
  byte: 0, bit: 0}, shift: {type: "modifier", byte: 1}}}, mappings: {play: {action:
  {type: "transport", command: "play"}, target: "app", priority: "high"}}}\<close>.
\<close>

definition hid_play_config :: mapping_config where
  "hid_play_config =
     \<lparr> cfg_device = Some \<lparr> dv_name = JStr ''Deck'', dv_protocol = JStr ''hid'' \<rparr>,
       cfg_mappings = Some
         [(''play'',
           \<lparr> cm_midi = None,
             cm_action = Some (template ''transport'' ''play'' JUndefined),
             cm_target = JStr ''app'', cm_priority = JStr ''high'',
             cm_condition = None \<rparr>)],
       cfg_parsing = Some [(''play'', button_control), (''shift'', shift_control)] \<rparr>"

definition hid_play_translator :: hid_translator where
  "hid_play_translator =
     \<lparr> ht_mappings =
         [(''play'',
           \<lparr> cm_midi = None,
             cm_action = Some (template ''transport'' ''play'' JUndefined),
             cm_target = JStr ''app'', cm_priority = JStr ''high'',
             cm_condition = None \<rparr>)],
       ht_parsing = Some [(''play'', button_control), (''shift'', shift_control)],
       ht_deviceName = JStr ''Deck'', modifierState = [] \<rparr>"

text \<open>
  The mapping file
  \<^verbatim>\<open>{device: {name: "Demo", protocol: "midi"}, mappings: {volume: {midi: {type: "cc",
  channel: 0, controller: 7}, action: {type: "mixer", command: "volume", deck: "A",
  valueExpression: ...}, target: "audio", priority: "normal"}}}\<close> for one fader, with
  the given value expression.
\<close>

definition fader_config :: "string \<Rightarrow> mapping_config" where
  "fader_config expression =
     \<lparr> cfg_device = Some \<lparr> dv_name = JStr ''Demo'', dv_protocol = JStr ''midi'' \<rparr>,
       cfg_mappings = Some
         [(''volume'',
           \<lparr> cm_midi = Some \<lparr> mp_type = ''cc'', mp_channel = Some 0, mp_note = None,
                               mp_controller = Some 7 \<rparr>,
             cm_action = Some ((template ''mixer'' ''volume'' (JStr ''A''))
                                 \<lparr> t_valueExpression := Some expression \<rparr>),
             cm_target = JStr ''audio'', cm_priority = JStr ''normal'',
             cm_condition = None \<rparr>)],
       cfg_parsing = None \<rparr>"

text \<open>The translator that \<^verbatim>\<open>new MIDITranslator\<close> builds from that file.\<close>

definition fader_translator :: "string \<Rightarrow> midi_translator" where
  "fader_translator expression =
     \<lparr> mt_mappings =
         [(''volume'',
           \<lparr> cm_midi = Some \<lparr> mp_type = ''cc'', mp_channel = Some 0, mp_note = None,
                               mp_controller = Some 7 \<rparr>,
             cm_action = Some ((template ''mixer'' ''volume'' (JStr ''A''))
                                 \<lparr> t_valueExpression := Some expression \<rparr>),
             cm_target = JStr ''audio'', cm_priority = JStr ''normal'',
             cm_condition = None \<rparr>)],
       mt_deviceName = JStr ''Demo'',
       mt_lookupTable = [''cc:0:cc:7'' \<mapsto> ''volume''] \<rparr>"

text \<open>
  The HID mapping file of the example with the given value expression in the action of
  the play button, and the translator that \<^verbatim>\<open>new HIDTranslator\<close> builds from it.
\<close>

definition hid_expr_config :: "string \<Rightarrow> mapping_config" where
  "hid_expr_config expression =
     hid_play_config\<lparr> cfg_mappings := Some
       [(''play'',
         \<lparr> cm_midi = None,
           cm_action = Some ((template ''transport'' ''play'' JUndefined)
                               \<lparr> t_valueExpression := Some expression \<rparr>),
           cm_target = JStr ''app'', cm_priority = JStr ''high'',
           cm_condition = None \<rparr>)] \<rparr>"


definition hid_expr_translator :: "string \<Rightarrow> hid_translator" where
  "hid_expr_translator expression =
     hid_play_translator\<lparr> ht_mappings :=
       [(''play'',
         \<lparr> cm_midi = None,
           cm_action = Some ((template ''transport'' ''play'' JUndefined)
                               \<lparr> t_valueExpression := Some expression \<rparr>),
           cm_target = JStr ''app'', cm_priority = JStr ''high'',
           cm_condition = None \<rparr>)] \<rparr>"

text \<open>
  The expression \<^verbatim>\<open>(() => { throw null })()\<close>, and the host on it: the call of
  the function built from \<^verbatim>\<open>return (() => { throw null })()\<close> throws \<^verbatim>\<open>null\<close>.
\<close>

definition null_expression :: string where
  "null_expression = ''(() => { throw null })()''"

definition host_on_null_expression :: js_function where
  "host_on_null_expression names body args =
     (if body = ''return (() => { throw null })()'' then Inl (Thrown JNull None None)
      else Inl (error_object ''SyntaxError''))"

text \<open>
  The expression \<^verbatim>\<open>(() => { throw { get message() { throw null } } })()\<close>, and
  the host on it: the call throws an object whose \<^verbatim>\<open>message\<close> accessor throws
  \<^verbatim>\<open>null\<close>.
\<close>

definition accessor_expression :: string where
  "accessor_expression = ''(() => { throw { get message() { throw null } } })()''"

definition host_on_accessor_expression :: js_function where
  "host_on_accessor_expression names body args =
     (if body = ''return (() => { throw { get message() { throw null } } })()''
      then Inl (Thrown (JObj []) (Some (Thrown JNull None None)) None)
      else Inl (error_object ''SyntaxError''))"

section \<open>FeedbackManager\<close>

record playback_state =
  playing :: jsval
  paused :: jsval
  cued :: jsval

record sync_state =
  enabled :: jsval
  locked :: jsval

text \<open>The cached state of one deck; position, VU meter and tempo are kept as objects.\<close>

record deck_state =
  ds_playback :: playback_state
  ds_position :: jsval
  ds_vuMeter :: jsval
  ds_sync :: sync_state
  ds_tempo :: jsval

text \<open>
  The manager: the state cache, the throttle table \<^verbatim>\<open>lastUpdate\<close> (control key to the
  time of the last update) and the intervals \<^verbatim>\<open>updateThrottles\<close>. In the source
  \<^verbatim>\<open>_updateLED\<close> ends, once past the throttle gate, in a placeholder for the device
  write (and a debug log line \<^verbatim>\<open>LED update\<close>); \<open>ledUpdates\<close> is the trace of the
  updates that reach that point, as (deviceId, controlId, state), oldest first.
\<close>

record feedback_manager =
  deckA :: deck_state
  deckB :: deck_state
  selectedTrack :: jsval
  playlist :: jsval
  lastUpdate :: "string \<rightharpoonup> int"
  updateThrottles :: "string \<rightharpoonup> int"
  ledUpdates :: "(string \<times> string \<times> string) list"



text \<open>
  \<^verbatim>\<open>_shouldUpdate(key, intervalMs)\<close>; \<open>now\<close> is the reading of \<^verbatim>\<open>Date.now()\<close>,
  taken only when the key has a (non-zero) last update. An interval that is
  \<^verbatim>\<open>undefined\<close> compares false.
\<close>

definition shouldUpdate :: "int \<Rightarrow> string \<Rightarrow> int option \<Rightarrow> feedback_manager \<Rightarrow> bool" where
  "shouldUpdate now key intervalMs fm =
     (case lastUpdate fm key of
        None \<Rightarrow> True
      | Some lastTime \<Rightarrow>
          if lastTime = 0 then True
          else (case intervalMs of None \<Rightarrow> False | Some i \<Rightarrow> now - lastTime \<ge> i))"

text \<open>The throttle key \<^verbatim>\<open>`${deviceId}:${controlId}`\<close>.\<close>

definition led_key :: "string \<Rightarrow> string \<Rightarrow> string" where
  "led_key dev controlId = dev @ '':'' @ controlId"

text \<open>
  \<^verbatim>\<open>_updateLED(deviceId, controlId, state)\<close>. The pair \<open>(tCheck, tSet)\<close> holds the
  clock readings of the call: the one \<^verbatim>\<open>_shouldUpdate\<close> takes and the one stored in
  \<^verbatim>\<open>lastUpdate\<close>.
\<close>

definition updateLED ::
  "int \<times> int \<Rightarrow> feedback_manager \<Rightarrow> string \<Rightarrow> string \<Rightarrow> string \<Rightarrow> feedback_manager" where
  "updateLED t fm dev controlId st =
     (let key = led_key dev controlId
      in if \<not> shouldUpdate (fst t) key (updateThrottles fm ''led'') fm then fm
         else fm\<lparr> ledUpdates := ledUpdates fm @ [(dev, controlId, st)],
                  lastUpdate := (lastUpdate fm)(key \<mapsto> snd t) \<rparr>)"


definition sync_led_state :: "sync_state \<Rightarrow> string" where
  "sync_led_state s =
     (if truthy (enabled s) \<and> truthy (locked s) then ''locked''
      else if truthy (enabled s) then ''enabled'' else ''disabled'')"

text \<open>
  \<^verbatim>\<open>_syncDeckState(deviceId, deck, deckState)\<close>; \<open>now i\<close> holds the clock readings of
  the \<open>i\<close>-th update of the enclosing \<^verbatim>\<open>syncDevice\<close> call, counted from \<open>k\<close>.
\<close>

definition syncDeckState ::
  "(nat \<Rightarrow> int \<times> int) \<Rightarrow> nat \<Rightarrow> feedback_manager \<Rightarrow> string \<Rightarrow> string \<Rightarrow> deck_state \<Rightarrow> feedback_manager" where
  "syncDeckState now k fm dev deck deckState =
     (let fm1 = updateLED (now k) fm dev (''play_'' @ deck)
                  (if truthy (playing (ds_playback deckState)) then ''playing'' else ''stopped'');
          fm2 = updateLED (now (k + 1)) fm1 dev (''cue_'' @ deck)
                  (if truthy (cued (ds_playback deckState)) then ''cued'' else ''stopped'');
          syncState = sync_led_state (ds_sync deckState)
      in updateLED (now (k + 2)) fm2 dev (''sync_'' @ deck) syncState)"







section \<open>Theorems\<close>

subsection \<open>14-bit pairing\<close>

lemma handle14BitCC_msb:
  assumes "c < 32"
  shows "handle14BitCC t1 t2 mgr dev (cc_message dev ch c v ts) =
           (None, mgr\<lparr> highResCCState := (highResCCState mgr)(dev \<mapsto>
              sweep t2 (highResCCTimeout mgr)
                ((device_state mgr dev)(cc_key ch c \<mapsto>
                    \<lparr> p_value = v, p_timestamp = t1, p_channel = ch \<rparr>))) \<rparr>)"
  using assms by (simp add: handle14BitCC_def cc_message_def Let_def)

lemma handle14BitCC_lsb_fresh:
  assumes "32 \<le> c" "c < 64"
    and "device_state mgr dev (cc_key ch (c - 32)) = Some p"
    and "t1 - p_timestamp p < highResCCTimeout mgr"
  shows "handle14BitCC t1 t2 mgr dev (cc_message dev ch c v ts) =
           (Some ((cc_message dev ch c v ts)\<lparr>
                controller := Some (c - 32), val := Some (p_value p * 128 + v),
                value14bit := Some (p_value p * 128 + v), maxValue := Some 16383,
                normalized := Some (of_int (p_value p * 128 + v) / 16383), highRes := True,
                lsbController := Some c, msb := Some (p_value p), lsb := Some v \<rparr>),
            mgr\<lparr> highResCCState := (highResCCState mgr)(dev \<mapsto>
              (device_state mgr dev)(cc_key ch (c - 32) := None)) \<rparr>)"
  using assms by (simp add: handle14BitCC_def cc_message_def Let_def)

lemma handle14BitCC_no_sweep:
  assumes "32 \<le> c"
  shows "\<exists>ds. snd (handle14BitCC t1 t2 mgr dev (cc_message dev ch c v ts)) =
              mgr\<lparr> highResCCState := (highResCCState mgr)(dev \<mapsto> ds) \<rparr> \<and>
            (\<forall>k. k \<noteq> cc_key ch (c - 32) \<longrightarrow> ds k = device_state mgr dev k)"
  using assms
  by (auto simp: handle14BitCC_def cc_message_def Let_def split: option.splits)

lemma device_state_store [simp]:
  "device_state (mgr\<lparr> highResCCState := (highResCCState mgr)(dev \<mapsto> ds) \<rparr>) dev = ds"
  by (simp add: device_state_def)

text \<open>
  C1. On one device and channel, an MSB message (controller \<open>C\<close> in 0..31, value \<open>m\<close>)
  followed by the LSB message (controller \<open>C + 32\<close>, value \<open>l\<close>) whose age check reads
  the clock less than 50 ms after the MSB was stored: the first call returns null, the
  second returns the one combined message with controller \<open>C\<close>, value and value14bit
  \<open>m * 128 + l\<close> (between 0 and 16383), maxValue 16383, normalized
  \<open>(m * 128 + l) / 16383\<close> and highRes true, and the pending entry of the pair is
  deleted. The clock readings \<open>t1\<close> (store), \<open>t2\<close> (clean-up of the MSB call) and
  \<open>t3\<close> (age check of the LSB call) are non-decreasing.
\<close>

theorem pairing_14bit:
  assumes window: "highResCCTimeout mgr = 50"
    and C: "0 \<le> C" "C < 32"
    and msb: "0 \<le> m" "m \<le> 127"
    and lsb: "0 \<le> l" "l \<le> 127"
    and clock: "t1 \<le> t2" "t2 \<le> t3" "t3 - t1 < 50"
  shows "case handle14BitCC t1 t2 mgr dev (cc_message dev ch C m ts1) of (r1, mgr1) \<Rightarrow>
         case handle14BitCC t3 t4 mgr1 dev (cc_message dev ch (C + 32) l ts2) of (r2, mgr2) \<Rightarrow>
           r1 = None \<and>
           r2 = Some ((cc_message dev ch (C + 32) l ts2)\<lparr>
                  controller := Some C, val := Some (m * 128 + l),
                  value14bit := Some (m * 128 + l), maxValue := Some 16383,
                  normalized := Some (of_int (m * 128 + l) / 16383), highRes := True,
                  lsbController := Some (C + 32), msb := Some m, lsb := Some l \<rparr>) \<and>
           0 \<le> m * 128 + l \<and> m * 128 + l \<le> 16383 \<and>
           device_state mgr1 dev (cc_key ch C) \<noteq> None \<and>
           device_state mgr2 dev (cc_key ch C) = None"
proof -
  let ?key = "cc_key ch C"
  let ?p = "\<lparr> p_value = m, p_timestamp = t1, p_channel = ch \<rparr>"
  let ?ds1 = "sweep t2 (highResCCTimeout mgr) ((device_state mgr dev)(?key \<mapsto> ?p))"
  let ?mgr1 = "mgr\<lparr> highResCCState := (highResCCState mgr)(dev \<mapsto> ?ds1) \<rparr>"
  have first: "handle14BitCC t1 t2 mgr dev (cc_message dev ch C m ts1) = (None, ?mgr1)"
    using C by (simp add: handle14BitCC_msb)
  have pend: "device_state ?mgr1 dev (cc_key ch (C + 32 - 32)) = Some ?p"
    using clock window by (simp add: sweep_def)
  have age: "t3 - p_timestamp ?p < highResCCTimeout ?mgr1"
    using clock window by simp
  have second: "handle14BitCC t3 t4 ?mgr1 dev (cc_message dev ch (C + 32) l ts2) =
      (Some ((cc_message dev ch (C + 32) l ts2)\<lparr>
                controller := Some C, val := Some (m * 128 + l),
                value14bit := Some (m * 128 + l), maxValue := Some 16383,
                normalized := Some (of_int (m * 128 + l) / 16383), highRes := True,
                lsbController := Some (C + 32), msb := Some m, lsb := Some l \<rparr>),
       ?mgr1\<lparr> highResCCState := (highResCCState ?mgr1)(dev \<mapsto>
              (device_state ?mgr1 dev)(cc_key ch (C + 32 - 32) := None)) \<rparr>)"
    using handle14BitCC_lsb_fresh [OF _ _ pend age, where ?t2.0 = t4 and v = l and ts = ts2] C
    by simp
  have range: "0 \<le> m * 128 + l \<and> m * 128 + l \<le> 16383"
    using msb lsb by simp
  have consumed: "device_state (?mgr1\<lparr> highResCCState := (highResCCState ?mgr1)(dev \<mapsto>
              (device_state ?mgr1 dev)(cc_key ch (C + 32 - 32) := None)) \<rparr>) dev (cc_key ch C) = None"
    by (simp only: device_state_store) simp
  have stored: "device_state ?mgr1 dev (cc_key ch C) \<noteq> None"
    using pend by simp
  show ?thesis
    by (simp only: first prod.case second) (use range consumed stored in blast)
qed

theorem pairing_14bit_witness:
  "highResCCTimeout MIDIManager_new = 50 \<and> (0::int) \<le> 19 \<and> (19::int) < 32 \<and>
   (0::int) \<le> 127 \<and> (127::int) \<le> 127 \<and> (0::int) \<le> 64 \<and> (64::int) \<le> 127 \<and>
   (1000::int) \<le> 1000 \<and> (1000::int) \<le> 1010 \<and> (1010::int) - 1000 < 50 \<and>
   fst (handle14BitCC 1010 1010
          (snd (handle14BitCC 1000 1000 MIDIManager_new ''midi-FLX4''
                  (cc_message ''midi-FLX4'' 0 19 127 1000)))
          ''midi-FLX4'' (cc_message ''midi-FLX4'' 0 51 64 1010))
     = Some ((cc_message ''midi-FLX4'' 0 51 64 1010)\<lparr>
                  controller := Some 19, val := Some 16320,
                  value14bit := Some 16320, maxValue := Some 16383,
                  normalized := Some (16320 / 16383), highRes := True,
                  lsbController := Some 51, msb := Some 127, lsb := Some 64 \<rparr>)"
  using pairing_14bit [where mgr = MIDIManager_new and C = 19 and m = 127 and l = 64
      and ?t1.0 = 1000 and ?t2.0 = 1000 and ?t3.0 = 1010 and ?t4.0 = 1010
      and dev = "''midi-FLX4''" and ch = 0 and ?ts1.0 = 1000 and ?ts2.0 = 1010]
  by (simp add: MIDIManager_new_def split: prod.splits)

subsection \<open>Clean-up of pending MSBs\<close>

lemma sweep_fresh:
  "sweep now timeout ds k = Some p \<Longrightarrow> now - p_timestamp p \<le> timeout"
  by (auto simp: sweep_def split: option.splits if_splits)

text \<open>
  C5, as stated, fails: the clean-up loop sits inside the MSB branch. A manager that
  stored an MSB for controller 5 at time 0 and receives, 1000 ms later, a CC with
  controller 40 (LSB range) or controller 70 (neither range) still holds the entry of
  age 1000 ms after the call.
\<close>

theorem sweep_every_call_counterexample:
  "map_option p_timestamp
     (device_state
        (snd (handle14BitCC 1000 1000
                (snd (handle14BitCC 0 0 MIDIManager_new ''d'' (cc_message ''d'' 0 5 100 0)))
                ''d'' (cc_message ''d'' 0 40 1 1000)))
        ''d'' ''0:5'') = Some 0 \<and>
   map_option p_timestamp
     (device_state
        (snd (handle14BitCC 1000 1000
                (snd (handle14BitCC 0 0 MIDIManager_new ''d'' (cc_message ''d'' 0 5 100 0)))
                ''d'' (cc_message ''d'' 0 70 1 1000)))
        ''d'' ''0:5'') = Some 0 \<and>
   (1000::int) - 0 > highResCCTimeout MIDIManager_new"
  by (simp add: handle14BitCC_def cc_message_def MIDIManager_new_def device_state_def
      sweep_def cc_key_def string_of_int_def Let_def)

text \<open>
  C5, amended. A call whose controller is in the MSB range (below 32) stores the MSB and
  then sweeps: afterwards the device's table holds no entry older than the window at the
  clock reading \<open>t2\<close> of the sweep. A call whose controller is 32 or above does not
  sweep: every entry other than the one keyed by the paired MSB controller stays as it
  was.
\<close>

theorem sweep_on_msb_calls:
  "(c < 32 \<longrightarrow>
      (\<forall>k p. device_state (snd (handle14BitCC t1 t2 mgr dev (cc_message dev ch c v ts))) dev k = Some p
             \<longrightarrow> t2 - p_timestamp p \<le> highResCCTimeout mgr)) \<and>
   (32 \<le> c \<longrightarrow>
      (\<forall>k. k \<noteq> cc_key ch (c - 32) \<longrightarrow>
           device_state (snd (handle14BitCC t1 t2 mgr dev (cc_message dev ch c v ts))) dev k
             = device_state mgr dev k))"
proof (intro conjI impI allI)
  fix k p
  assume "c < 32"
    and "device_state (snd (handle14BitCC t1 t2 mgr dev (cc_message dev ch c v ts))) dev k = Some p"
  then show "t2 - p_timestamp p \<le> highResCCTimeout mgr"
    by (simp add: handle14BitCC_msb sweep_fresh)
next
  fix k
  assume c: "32 \<le> c" and k: "k \<noteq> cc_key ch (c - 32)"
  from handle14BitCC_no_sweep [OF c, of t1 t2 mgr dev ch v ts]
  obtain ds where "snd (handle14BitCC t1 t2 mgr dev (cc_message dev ch c v ts)) =
              mgr\<lparr> highResCCState := (highResCCState mgr)(dev \<mapsto> ds) \<rparr>"
    and "\<forall>k. k \<noteq> cc_key ch (c - 32) \<longrightarrow> ds k = device_state mgr dev k"
    by blast
  with k show "device_state (snd (handle14BitCC t1 t2 mgr dev (cc_message dev ch c v ts))) dev k
             = device_state mgr dev k"
    by simp
qed

theorem sweep_on_msb_calls_witness:
  "device_state
     (snd (handle14BitCC 1000 1000
             (snd (handle14BitCC 0 0 MIDIManager_new ''d'' (cc_message ''d'' 0 5 100 0)))
             ''d'' (cc_message ''d'' 0 7 1 1000)))
     ''d'' ''0:5'' = None \<and>
   device_state
     (snd (handle14BitCC 1000 1000
             (snd (handle14BitCC 0 0 MIDIManager_new ''d'' (cc_message ''d'' 0 5 100 0)))
             ''d'' (cc_message ''d'' 0 40 1 1000)))
     ''d'' ''0:5''
   = device_state (snd (handle14BitCC 0 0 MIDIManager_new ''d'' (cc_message ''d'' 0 5 100 0)))
       ''d'' ''0:5''"
proof -
  let ?mgr = "snd (handle14BitCC 0 0 MIDIManager_new ''d'' (cc_message ''d'' 0 5 100 0))"
  have stored: "device_state ?mgr ''d'' ''0:5''
      = Some \<lparr> p_value = 100, p_timestamp = 0, p_channel = 0 \<rparr>"
    by (simp add: handle14BitCC_def cc_message_def MIDIManager_new_def device_state_def
        sweep_def cc_key_def string_of_int_def Let_def)
  have window: "highResCCTimeout ?mgr = 50"
    by (simp add: handle14BitCC_def cc_message_def MIDIManager_new_def Let_def)
  have msb_call: "\<forall>p. device_state
       (snd (handle14BitCC 1000 1000 ?mgr ''d'' (cc_message ''d'' 0 7 1 1000))) ''d'' ''0:5'' = Some p
       \<longrightarrow> 1000 - p_timestamp p \<le> highResCCTimeout ?mgr"
    using sweep_on_msb_calls [where c = 7 and mgr = ?mgr and dev = "''d''" and ch = 0 and v = 1
        and ts = 1000 and ?t1.0 = 1000 and ?t2.0 = 1000]
    by simp
  have same: "\<forall>p. device_state
       (snd (handle14BitCC 1000 1000 ?mgr ''d'' (cc_message ''d'' 0 7 1 1000))) ''d'' ''0:5'' = Some p
       \<longrightarrow> p_timestamp p = 0"
    using stored by (auto simp: handle14BitCC_msb sweep_def split: option.splits if_splits
        simp: cc_key_def string_of_int_def)
  have gone: "device_state
       (snd (handle14BitCC 1000 1000 ?mgr ''d'' (cc_message ''d'' 0 7 1 1000))) ''d'' ''0:5'' = None"
  proof (cases "device_state
       (snd (handle14BitCC 1000 1000 ?mgr ''d'' (cc_message ''d'' 0 7 1 1000))) ''d'' ''0:5''")
    case None
    then show ?thesis .
  next
    case (Some p)
    with msb_call same window show ?thesis by auto
  qed
  have kept: "device_state
       (snd (handle14BitCC 1000 1000 ?mgr ''d'' (cc_message ''d'' 0 40 1 1000))) ''d'' ''0:5''
     = device_state ?mgr ''d'' ''0:5''"
    using sweep_on_msb_calls [where c = 40 and mgr = ?mgr and dev = "''d''" and ch = 0 and v = 1
        and ts = 1000 and ?t1.0 = 1000 and ?t2.0 = 1000]
    by (simp add: cc_key_def string_of_int_def)
  show ?thesis using gone kept by simp
qed

subsection \<open>Router: strict priority of the dispatch loop\<close>

lemma processQueues_high:
  assumes "\<not> isProcessing r" "audioClient r = Some c" "highQueue r = a # rest"
  shows "processQueues t r = r\<lparr> highQueue := rest, sent := sent r @ [message_of t a] \<rparr>"
  using assms by (simp add: processQueues_def sendAction_def Let_def)

lemma processQueues_normal:
  assumes "\<not> isProcessing r" "audioClient r = Some c" "highQueue r = []" "normalQueue r = a # rest"
  shows "processQueues t r = r\<lparr> normalQueue := rest, sent := sent r @ [message_of t a] \<rparr>"
  using assms by (simp add: processQueues_def sendAction_def Let_def)

lemma processQueues_idle:
  assumes "\<not> isProcessing r" "highQueue r = []" "normalQueue r = []"
  shows "processQueues t r = r"
  using assms by (simp add: processQueues_def Let_def)

lemma processQueues_at_most_one:
  "length (sent (processQueues t r)) \<le> length (sent r) + 1"
  by (simp add: processQueues_def sendAction_def Let_def split: list.splits option.splits)

lemma run_turns_idle:
  assumes "\<not> isProcessing r" "highQueue r = []" "normalQueue r = []"
  shows "run_turns ts r = r"
  using assms by (induction ts) (simp_all add: processQueues_idle)

lemma run_turns_trace:
  assumes "\<not> isProcessing r" "audioClient r = Some c"
  shows "run_turns ts r =
           r\<lparr> highQueue := drop (length ts) (highQueue r),
              normalQueue := drop (length ts - length (highQueue r)) (normalQueue r),
              sent := sent r @ map2 message_of ts (highQueue r @ normalQueue r) \<rparr>"
  using assms
proof (induction ts arbitrary: r)
  case Nil
  show ?case by simp
next
  case (Cons t ts)
  show ?case
  proof (cases "highQueue r")
    case (Cons a rest)
    let ?r' = "r\<lparr> highQueue := rest, sent := sent r @ [message_of t a] \<rparr>"
    have step: "processQueues t r = ?r'"
      using Cons.prems Cons by (simp add: processQueues_high)
    have "run_turns ts ?r' = ?r'\<lparr> highQueue := drop (length ts) (highQueue ?r'),
              normalQueue := drop (length ts - length (highQueue ?r')) (normalQueue ?r'),
              sent := sent ?r' @ map2 message_of ts (highQueue ?r' @ normalQueue ?r') \<rparr>"
      using Cons.prems by (intro Cons.IH) auto
    then show ?thesis using step Cons by simp
  next
    case Nil
    note high_empty = Nil
    show ?thesis
    proof (cases "normalQueue r")
      case Nil
      then show ?thesis using high_empty Cons.prems by (simp add: run_turns_idle processQueues_idle)
    next
      case (Cons a rest)
      let ?r' = "r\<lparr> normalQueue := rest, sent := sent r @ [message_of t a] \<rparr>"
      have step: "processQueues t r = ?r'"
        using Cons.prems high_empty Cons by (simp add: processQueues_normal)
      have "run_turns ts ?r' = ?r'\<lparr> highQueue := drop (length ts) (highQueue ?r'),
              normalQueue := drop (length ts - length (highQueue ?r')) (normalQueue ?r'),
              sent := sent ?r' @ map2 message_of ts (highQueue ?r' @ normalQueue ?r') \<rparr>"
        using Cons.prems by (intro Cons.IH) auto
      then show ?thesis using step Cons high_empty by simp
    qed
  qed
qed

text \<open>
  C2. A router that is not paused and has a client holds \<open>N\<close> high-priority and \<open>M\<close>
  normal-priority actions. Whatever the number of scheduling turns, the messages sent
  during them are, in order, those of the high queue followed by those of the normal queue
  (as many as there were turns, and all \<open>N + M\<close> after \<open>N + M\<close> turns): every high
  action is sent, first in first out, before any normal one. One turn sends at most one
  message; it takes the head of the high queue when that queue is not empty, and the head
  of the normal queue only when the high queue is empty.
\<close>

theorem priority_dispatch:
  assumes idle: "\<not> isProcessing r" and client: "audioClient r = Some c"
  shows "sent (run_turns ts r) = sent r @ map2 message_of ts (highQueue r @ normalQueue r) \<and>
         (length ts = length (highQueue r) + length (normalQueue r) \<longrightarrow>
            sent (run_turns ts r) =
              sent r @ map2 message_of (take (length (highQueue r)) ts) (highQueue r)
                     @ map2 message_of (drop (length (highQueue r)) ts) (normalQueue r) \<and>
            highQueue (run_turns ts r) = [] \<and> normalQueue (run_turns ts r) = []) \<and>
         length (sent (processQueues t r)) \<le> length (sent r) + 1 \<and>
         (\<forall>a rest. highQueue r = a # rest \<longrightarrow>
            processQueues t r = r\<lparr> highQueue := rest, sent := sent r @ [message_of t a] \<rparr>) \<and>
         (\<forall>a rest. highQueue r = [] \<and> normalQueue r = a # rest \<longrightarrow>
            processQueues t r = r\<lparr> normalQueue := rest, sent := sent r @ [message_of t a] \<rparr>)"
proof -
  have trace: "run_turns ts r =
           r\<lparr> highQueue := drop (length ts) (highQueue r),
              normalQueue := drop (length ts - length (highQueue r)) (normalQueue r),
              sent := sent r @ map2 message_of ts (highQueue r @ normalQueue r) \<rparr>"
    using idle client by (rule run_turns_trace)
  have split: "map2 message_of ts (highQueue r @ normalQueue r) =
      map2 message_of (take (length (highQueue r)) ts) (highQueue r)
        @ map2 message_of (drop (length (highQueue r)) ts) (normalQueue r)"
    by (simp add: zip_append2)
  have all: "length ts = length (highQueue r) + length (normalQueue r) \<longrightarrow>
            sent (run_turns ts r) =
              sent r @ map2 message_of (take (length (highQueue r)) ts) (highQueue r)
                     @ map2 message_of (drop (length (highQueue r)) ts) (normalQueue r) \<and>
            highQueue (run_turns ts r) = [] \<and> normalQueue (run_turns ts r) = []"
    using split by (simp add: trace)
  have high: "\<forall>a rest. highQueue r = a # rest \<longrightarrow>
            processQueues t r = r\<lparr> highQueue := rest, sent := sent r @ [message_of t a] \<rparr>"
    using idle client by (simp add: processQueues_high)
  have normal: "\<forall>a rest. highQueue r = [] \<and> normalQueue r = a # rest \<longrightarrow>
            processQueues t r = r\<lparr> normalQueue := rest, sent := sent r @ [message_of t a] \<rparr>"
    using idle client by (simp add: processQueues_normal)
  have one: "length (sent (processQueues t r)) \<le> length (sent r) + 1"
    by (rule processQueues_at_most_one)
  have tr: "sent (run_turns ts r) = sent r @ map2 message_of ts (highQueue r @ normalQueue r)"
    by (simp add: trace)
  show ?thesis using tr all one high normal by blast
qed

theorem priority_dispatch_witness:
  "sent (run_turns [10, 20, 30]
     ((ActionRouter_new (Some (\<lambda>m. Inr True)))
        \<lparr> highQueue := [plain_action ''transport'' ''play'' ''audio'' ''high'' 1,
                        plain_action ''transport'' ''cue'' ''audio'' ''high'' 2],
          normalQueue := [plain_action ''mixer'' ''volume'' ''audio'' ''normal'' 3] \<rparr>))
   = [message_of 10 (plain_action ''transport'' ''play'' ''audio'' ''high'' 1),
      message_of 20 (plain_action ''transport'' ''cue'' ''audio'' ''high'' 2),
      message_of 30 (plain_action ''mixer'' ''volume'' ''audio'' ''normal'' 3)]"
  using priority_dispatch [where r = "(ActionRouter_new (Some (\<lambda>m. Inr True)))
        \<lparr> highQueue := [plain_action ''transport'' ''play'' ''audio'' ''high'' 1,
                        plain_action ''transport'' ''cue'' ''audio'' ''high'' 2],
          normalQueue := [plain_action ''mixer'' ''volume'' ''audio'' ''normal'' 3] \<rparr>"
      and c = "\<lambda>m. Inr True" and ts = "[10, 20, 30]" and t = 10]
  by (simp add: ActionRouter_new_def del: run_turns.simps)

subsection \<open>Router: overflow\<close>

text \<open>
  C3. The action has a target and priority \<^verbatim>\<open>high\<close> (respectively \<^verbatim>\<open>normal\<close>), and
  the queue of that priority already holds \<open>maxQueueSize\<close> entries (1000 after
  construction). Then \<open>route\<close> returns false, the dropped-actions counter grows by exactly
  1, and both queues are what they were: same length, same entries in the same order, the
  new action not appended. Nothing is sent.
\<close>

theorem overflow_drops_new:
  assumes target: "truthy (a_target a)"
  shows "(a_priority a = JStr ''high'' \<and> maxQueueSize r \<le> length (highQueue r) \<longrightarrow>
            fst (route now r a) = False \<and>
            droppedActions (rstats (snd (route now r a))) = droppedActions (rstats r) + 1 \<and>
            highQueue (snd (route now r a)) = highQueue r \<and>
            length (highQueue (snd (route now r a))) = length (highQueue r) \<and>
            normalQueue (snd (route now r a)) = normalQueue r \<and>
            sent (snd (route now r a)) = sent r) \<and>
         (a_priority a = JStr ''normal'' \<and> maxQueueSize r \<le> length (normalQueue r) \<longrightarrow>
            fst (route now r a) = False \<and>
            droppedActions (rstats (snd (route now r a))) = droppedActions (rstats r) + 1 \<and>
            normalQueue (snd (route now r a)) = normalQueue r \<and>
            length (normalQueue (snd (route now r a))) = length (normalQueue r) \<and>
            highQueue (snd (route now r a)) = highQueue r \<and>
            sent (snd (route now r a)) = sent r)"
  using target by (simp add: route_def Let_def)

theorem overflow_drops_new_witness:
  "maxQueueSize (ActionRouter_new None) = 1000 \<and>
   fst (route 5
          ((ActionRouter_new None)
             \<lparr> highQueue := replicate 1000 (plain_action ''transport'' ''play'' ''audio'' ''high'' 1) \<rparr>)
          (plain_action ''transport'' ''cue'' ''audio'' ''high'' 2)) = False \<and>
   droppedActions (rstats (snd (route 5
          ((ActionRouter_new None)
             \<lparr> highQueue := replicate 1000 (plain_action ''transport'' ''play'' ''audio'' ''high'' 1) \<rparr>)
          (plain_action ''transport'' ''cue'' ''audio'' ''high'' 2)))) = 1 \<and>
   highQueue (snd (route 5
          ((ActionRouter_new None)
             \<lparr> highQueue := replicate 1000 (plain_action ''transport'' ''play'' ''audio'' ''high'' 1) \<rparr>)
          (plain_action ''transport'' ''cue'' ''audio'' ''high'' 2)))
     = replicate 1000 (plain_action ''transport'' ''play'' ''audio'' ''high'' 1)"
  using overflow_drops_new [where a = "plain_action ''transport'' ''cue'' ''audio'' ''high'' 2"
      and r = "(ActionRouter_new None)
             \<lparr> highQueue := replicate 1000 (plain_action ''transport'' ''play'' ''audio'' ''high'' 1) \<rparr>"
      and now = 5]
  by (simp add: ActionRouter_new_def plain_action_def)

subsection \<open>HID polling: what the second of two identical polls emits\<close>

text \<open>
  C4 on the code. A device with one button is connected and polled twice with the same
  one-byte report \<open>[1]\<close>. \<^verbatim>\<open>_computeDeltas\<close> compares against
  \<^verbatim>\<open>deviceInfo.previousState\<close>, which \<^verbatim>\<open>_pollDevice\<close> sets to the state of the poll
  before the last one only after the comparison: at the second poll it is still the
  empty state of \<^verbatim>\<open>connectDevice\<close>, so the second poll emits the same event as the
  first although the parsed value did not change. The state of the first poll is what
  the third poll is compared with, which then emits nothing.
\<close>

theorem identical_polls_second_poll_emits:
  "map (\<lambda>e. (h_control e, h_value e, h_delta e))
     (fst (pollDevice (\<lambda>i. 108)
             (snd (pollDevice (\<lambda>i. 100)
                     (connectDevice Map.empty ''hid-x'' [(''play'', button_control)])
                     ''hid-x'' (Inr (Some [1]))))
             ''hid-x'' (Inr (Some [1]))))
     = [(''play'', JNum 1, JNum 1)] \<and>
   fst (pollDevice (\<lambda>i. 116)
          (snd (pollDevice (\<lambda>i. 108)
             (snd (pollDevice (\<lambda>i. 100)
                     (connectDevice Map.empty ''hid-x'' [(''play'', button_control)])
                     ''hid-x'' (Inr (Some [1]))))
             ''hid-x'' (Inr (Some [1]))))
          ''hid-x'' (Inr (Some [1]))) = []"
  by (simp add: pollDevice_def connectDevice_def computeDeltas_def parse_control_def
      byte_at_def button_control_def num_of_def js_or_def Let_def)

subsection \<open>MIDI translation of a transport note-on\<close>









subsection \<open>Target and priority of translated actions\<close>

lemma MIDI_translate_target_priority:
  assumes "MIDI_translate ev tr e = Inr (Some a)"
  shows "\<exists>key m. mt_lookupTable tr (createLookupKey e) = Some key \<and>
                 map_of (mt_mappings tr) key = Some m \<and>
                 a_target a = cm_target m \<and> a_priority a = cm_priority m"
  using assms
  by (auto simp: MIDI_translate_def MIDI_buildAction_def Let_def
           split: option.splits if_splits sum.splits)

text \<open>
  C7 on the code. The HID mapping file of the example passes
  \<^verbatim>\<open>validateDeviceMapping\<close> with target \<^verbatim>\<open>app\<close> and priority \<^verbatim>\<open>high\<close> for the
  play button. The HID translator built from it reads \<^verbatim>\<open>mapping.action.target\<close> and
  \<^verbatim>\<open>mapping.action.priority\<close>, which the file does not have, and a press of the
  button translates to an action with target \<^verbatim>\<open>audio\<close> and priority \<^verbatim>\<open>normal\<close>.
  (The MIDI translator copies \<^verbatim>\<open>mapping.target\<close> and \<^verbatim>\<open>mapping.priority\<close>.)
\<close>

theorem hid_translate_substitutes_defaults:
  "validateDeviceMapping hid_play_config = Inr () \<and>
   HIDTranslator_new hid_play_config = Inr hid_play_translator \<and>
   map_option (\<lambda>m. (cm_target m, cm_priority m)) (map_of (ht_mappings hid_play_translator) ''play'')
     = Some (JStr ''app'', JStr ''high'') \<and>
   HID_translate ev hid_play_translator
       (hid_input ''hid-deck'' ''play'' ''button'' (JNum 1) (JNum 1) 100)
     = Inr (Some \<lparr> a_type = JStr ''transport'', a_command = JStr ''play'',
                    a_target = JStr ''audio'', a_priority = JStr ''normal'',
                    a_timestamp = 100, a_deviceId = ''hid-deck'', a_from = JStr ''Deck'',
                    a_deck = JUndefined, a_value = JBool True, a_delta = JUndefined,
                    a_direction = JUndefined, a_mode = JUndefined, a_rawValue = JUndefined \<rparr>,
            hid_play_translator)"
proof (intro conjI)
  show "validateDeviceMapping hid_play_config = Inr ()"
    by (simp add: validateDeviceMapping_def hid_play_config_def template_def)
  show "HIDTranslator_new hid_play_config = Inr hid_play_translator"
    by (simp add: HIDTranslator_new_def hid_play_config_def hid_play_translator_def
        device_name_of_def js_or_def)
  show "map_option (\<lambda>m. (cm_target m, cm_priority m))
          (map_of (ht_mappings hid_play_translator) ''play'') = Some (JStr ''app'', JStr ''high'')"
    by (simp add: hid_play_translator_def)
  show "HID_translate ev hid_play_translator
       (hid_input ''hid-deck'' ''play'' ''button'' (JNum 1) (JNum 1) 100)
     = Inr (Some \<lparr> a_type = JStr ''transport'', a_command = JStr ''play'',
                    a_target = JStr ''audio'', a_priority = JStr ''normal'',
                    a_timestamp = 100, a_deviceId = ''hid-deck'', a_from = JStr ''Deck'',
                    a_deck = JUndefined, a_value = JBool True, a_delta = JUndefined,
                    a_direction = JUndefined, a_mode = JUndefined, a_rawValue = JUndefined \<rparr>,
            hid_play_translator)"
    by (simp add: HID_translate_def HID_buildAction_def HID_finish_def
        HID_applyValueExpression_def hid_play_translator_def hid_input_def button_control_def
        shift_control_def template_def js_or_def present_def Let_def)
qed

theorem hid_translate_substitutes_defaults_witness:
  "validateDeviceMapping hid_play_config = Inr () \<and>
   HIDTranslator_new hid_play_config = Inr hid_play_translator \<and>
   map_option (\<lambda>m. (cm_target m, cm_priority m)) (map_of (ht_mappings hid_play_translator) ''play'')
     = Some (JStr ''app'', JStr ''high'') \<and>
   HID_translate always_throws hid_play_translator
       (hid_input ''hid-deck'' ''play'' ''button'' (JNum 1) (JNum 1) 100)
     = Inr (Some \<lparr> a_type = JStr ''transport'', a_command = JStr ''play'',
                    a_target = JStr ''audio'', a_priority = JStr ''normal'',
                    a_timestamp = 100, a_deviceId = ''hid-deck'', a_from = JStr ''Deck'',
                    a_deck = JUndefined, a_value = JBool True, a_delta = JUndefined,
                    a_direction = JUndefined, a_mode = JUndefined, a_rawValue = JUndefined \<rparr>,
            hid_play_translator)"
  by (rule hid_translate_substitutes_defaults)

subsection \<open>Failing expressions\<close>

lemma MIDI_evaluateExpression_caught:
  assumes "ev [''value'', ''velocity''] (''return '' @ x)
             [JNum (of_int (expr_value e)), JNum (of_int (expr_velocity e))] = Inl error"
    and "read_message error = None"
  shows "MIDI_evaluateExpression ev x e = Inr (JNum (of_int (expr_value e)))"
  using assms by (simp add: MIDI_evaluateExpression_def Let_def)

lemma HID_evaluateExpression_caught:
  assumes "ev (map fst (expression_context tr e)) (''return '' @ x)
              (map snd (expression_context tr e)) = Inl error"
    and "read_message error = None"
  shows "HID_evaluateExpression ev tr x e = Inr (h_value e)"
  using assms by (simp add: HID_evaluateExpression_def Let_def)

lemma read_message_error_object: "read_message (error_object name) = None"
  by (simp add: error_object_def)

lemma fader_key: "createLookupKey (cc_message dev 0 7 v ts) = ''cc:0:cc:7''"
  by (simp add: createLookupKey_def cc_message_def string_of_int_def)

text \<open>
  C8 on the code. The mapping files of the fader and of the HID play button pass
  \<^verbatim>\<open>validateDeviceMapping\<close> whatever their value expression is, and the translators
  are built from them. The catch block of both \<^verbatim>\<open>_evaluateExpression\<close> functions reads
  \<^verbatim>\<open>error.message\<close> before it returns the fallback. For the value expression
  \<^verbatim>\<open>(() => { throw null })()\<close> the evaluation throws \<^verbatim>\<open>null\<close>, the read throws a
  \<^verbatim>\<open>TypeError\<close>, and the evaluator exits by that exception instead of returning the
  raw value (100 for the fader event, 1 for the button event); \<open>translate\<close> catches it
  and returns null. For the value expression
  \<^verbatim>\<open>(() => { throw { get message() { throw null } } })()\<close> the evaluator exits by
  the thrown \<^verbatim>\<open>null\<close>, the catch block of \<open>translate\<close> reads \<^verbatim>\<open>error.message\<close> of it,
  and \<open>translate\<close> itself throws a \<^verbatim>\<open>TypeError\<close>.
\<close>

theorem thrown_null_escapes_evaluator:
  "validateDeviceMapping (fader_config x) = Inr () \<and>
   MIDITranslator_new (fader_config x) = Inr (fader_translator x) \<and>
   validateDeviceMapping (hid_expr_config x) = Inr () \<and>
   HIDTranslator_new (hid_expr_config x) = Inr (hid_expr_translator x) \<and>
   MIDI_evaluateExpression host_on_null_expression null_expression (cc_message dev 0 7 100 ts)
     = Inl (error_object ''TypeError'') \<and>
   MIDI_translate host_on_null_expression (fader_translator null_expression)
       (cc_message dev 0 7 100 ts) = Inr None \<and>
   HID_evaluateExpression host_on_null_expression (hid_expr_translator null_expression)
       null_expression (hid_input hdev ''play'' ''button'' (JNum 1) (JNum 1) ts)
     = Inl (error_object ''TypeError'') \<and>
   HID_translate host_on_null_expression (hid_expr_translator null_expression)
       (hid_input hdev ''play'' ''button'' (JNum 1) (JNum 1) ts)
     = Inr (None, hid_expr_translator null_expression) \<and>
   MIDI_translate host_on_accessor_expression (fader_translator accessor_expression)
       (cc_message dev 0 7 100 ts) = Inl (error_object ''TypeError'') \<and>
   HID_translate host_on_accessor_expression (hid_expr_translator accessor_expression)
       (hid_input hdev ''play'' ''button'' (JNum 1) (JNum 1) ts)
     = Inl (error_object ''TypeError'', hid_expr_translator accessor_expression)"
proof (intro conjI)
  show "validateDeviceMapping (fader_config x) = Inr ()"
    by (simp add: validateDeviceMapping_def fader_config_def template_def)
  show "MIDITranslator_new (fader_config x) = Inr (fader_translator x)"
    by (simp add: MIDITranslator_new_def fader_config_def fader_translator_def device_name_of_def
        js_or_def createLookupKeyFromConfig_def opt_int_string_def string_of_int_def)
  show "validateDeviceMapping (hid_expr_config x) = Inr ()"
    by (simp add: validateDeviceMapping_def hid_expr_config_def hid_play_config_def template_def)
  show "HIDTranslator_new (hid_expr_config x) = Inr (hid_expr_translator x)"
    by (simp add: HIDTranslator_new_def hid_expr_config_def hid_play_config_def
        hid_expr_translator_def hid_play_translator_def device_name_of_def js_or_def)
  show "MIDI_evaluateExpression host_on_null_expression null_expression (cc_message dev 0 7 100 ts)
     = Inl (error_object ''TypeError'')"
    by (simp add: MIDI_evaluateExpression_def host_on_null_expression_def null_expression_def
        Let_def)
  show "MIDI_translate host_on_null_expression (fader_translator null_expression)
       (cc_message dev 0 7 100 ts) = Inr None"
    by (simp add: MIDI_translate_def fader_key)
       (simp add: fader_translator_def MIDI_buildAction_def MIDI_evaluateExpression_def
          host_on_null_expression_def null_expression_def template_def cc_message_def
          present_def error_object_def Let_def)
  show "HID_evaluateExpression host_on_null_expression (hid_expr_translator null_expression)
       null_expression (hid_input hdev ''play'' ''button'' (JNum 1) (JNum 1) ts)
     = Inl (error_object ''TypeError'')"
    by (simp add: HID_evaluateExpression_def host_on_null_expression_def null_expression_def
        Let_def)
  show "HID_translate host_on_null_expression (hid_expr_translator null_expression)
       (hid_input hdev ''play'' ''button'' (JNum 1) (JNum 1) ts)
     = Inr (None, hid_expr_translator null_expression)"
    by (simp add: HID_translate_def HID_buildAction_def HID_finish_def
        HID_applyValueExpression_def HID_evaluateExpression_def hid_expr_translator_def
        hid_play_translator_def hid_input_def button_control_def shift_control_def
        template_def js_or_def present_def host_on_null_expression_def null_expression_def
        error_object_def Let_def)
  show "MIDI_translate host_on_accessor_expression (fader_translator accessor_expression)
       (cc_message dev 0 7 100 ts) = Inl (error_object ''TypeError'')"
    by (simp add: MIDI_translate_def fader_key)
       (simp add: fader_translator_def MIDI_buildAction_def MIDI_evaluateExpression_def
          host_on_accessor_expression_def accessor_expression_def template_def cc_message_def
          present_def error_object_def Let_def)
  show "HID_translate host_on_accessor_expression (hid_expr_translator accessor_expression)
       (hid_input hdev ''play'' ''button'' (JNum 1) (JNum 1) ts)
     = Inl (error_object ''TypeError'', hid_expr_translator accessor_expression)"
    by (simp add: HID_translate_def HID_buildAction_def HID_finish_def
        HID_applyValueExpression_def HID_evaluateExpression_def hid_expr_translator_def
        hid_play_translator_def hid_input_def button_control_def shift_control_def
        template_def js_or_def present_def host_on_accessor_expression_def
        accessor_expression_def error_object_def Let_def)
qed

theorem thrown_null_escapes_evaluator_witness:
  "validateDeviceMapping (fader_config null_expression) = Inr () \<and>
   MIDITranslator_new (fader_config null_expression) = Inr (fader_translator null_expression) \<and>
   validateDeviceMapping (hid_expr_config null_expression) = Inr () \<and>
   HIDTranslator_new (hid_expr_config null_expression) = Inr (hid_expr_translator null_expression) \<and>
   MIDI_evaluateExpression host_on_null_expression null_expression
       (cc_message ''midi-dev'' 0 7 100 5)
     = Inl (error_object ''TypeError'') \<and>
   MIDI_translate host_on_null_expression (fader_translator null_expression)
       (cc_message ''midi-dev'' 0 7 100 5) = Inr None \<and>
   HID_evaluateExpression host_on_null_expression (hid_expr_translator null_expression)
       null_expression (hid_input ''hid-deck'' ''play'' ''button'' (JNum 1) (JNum 1) 5)
     = Inl (error_object ''TypeError'') \<and>
   HID_translate host_on_null_expression (hid_expr_translator null_expression)
       (hid_input ''hid-deck'' ''play'' ''button'' (JNum 1) (JNum 1) 5)
     = Inr (None, hid_expr_translator null_expression) \<and>
   MIDI_translate host_on_accessor_expression (fader_translator accessor_expression)
       (cc_message ''midi-dev'' 0 7 100 5) = Inl (error_object ''TypeError'') \<and>
   HID_translate host_on_accessor_expression (hid_expr_translator accessor_expression)
       (hid_input ''hid-deck'' ''play'' ''button'' (JNum 1) (JNum 1) 5)
     = Inl (error_object ''TypeError'', hid_expr_translator accessor_expression)"
  by (rule thrown_null_escapes_evaluator)

text \<open>
  What the catch blocks do for an ordinary error: when the thrown value is an
  \<^verbatim>\<open>Error\<close> object (a syntax error, a reference to an undefined variable), the
  evaluators return the raw value, and \<open>translate\<close> returns an action that carries it.
\<close>

lemma ordinary_error_falls_back:
  "MIDI_evaluateExpression always_throws x me = Inr (JNum (of_int (expr_value me))) \<and>
   HID_evaluateExpression always_throws ht x he = Inr (h_value he) \<and>
   (\<exists>a. MIDI_translate always_throws (fader_translator ''value >'') (cc_message dev 0 7 100 ts)
           = Inr (Some a) \<and> a_value a = JNum 100)"
proof (intro conjI)
  show "MIDI_evaluateExpression always_throws x me = Inr (JNum (of_int (expr_value me)))"
    by (rule MIDI_evaluateExpression_caught [where error = "error_object ''SyntaxError''"])
       (simp_all add: always_throws_def read_message_error_object)
  show "HID_evaluateExpression always_throws ht x he = Inr (h_value he)"
    by (rule HID_evaluateExpression_caught [where error = "error_object ''SyntaxError''"])
       (simp_all add: always_throws_def read_message_error_object)
  show "\<exists>a. MIDI_translate always_throws (fader_translator ''value >'') (cc_message dev 0 7 100 ts)
           = Inr (Some a) \<and> a_value a = JNum 100"
    by (simp add: MIDI_translate_def fader_key)
       (simp add: fader_translator_def MIDI_buildAction_def MIDI_evaluateExpression_def
          always_throws_def template_def cc_message_def present_def error_object_def
          expr_value_def nonzero_def Let_def)
qed

subsection \<open>Modifier state of the HID translator\<close>

text \<open>
  C9 on the code. The HID mapping file of the example passes
  \<^verbatim>\<open>validateDeviceMapping\<close>; its parsing section declares the shift control with
  \<^verbatim>\<open>type: modifier\<close>, and the control has no entry in \<^verbatim>\<open>mappings\<close> (the validator
  refuses an entry without an action). In \<open>translate\<close> the update of the modifier table
  comes after the early return for a control without a mappings entry: the press event
  of the shift control returns null and leaves the translator as it was, with no entry
  for the control in the modifier table.
\<close>

theorem modifier_update_skipped:
  "validateDeviceMapping hid_play_config = Inr () \<and>
   HIDTranslator_new hid_play_config = Inr hid_play_translator \<and>
   map_option c_type (map_of (the (ht_parsing hid_play_translator)) ''shift'') = Some ''modifier'' \<and>
   HID_translate ev hid_play_translator
       (hid_input ''hid-deck'' ''shift'' ''modifier'' (JNum 1) (JNum 1) 100)
     = Inr (None, hid_play_translator) \<and>
   map_of (modifierState hid_play_translator) ''shift'' = None"
proof (intro conjI)
  show "validateDeviceMapping hid_play_config = Inr ()"
    by (simp add: validateDeviceMapping_def hid_play_config_def template_def)
  show "HIDTranslator_new hid_play_config = Inr hid_play_translator"
    by (simp add: HIDTranslator_new_def hid_play_config_def hid_play_translator_def
        device_name_of_def js_or_def)
  show "map_option c_type (map_of (the (ht_parsing hid_play_translator)) ''shift'')
          = Some ''modifier''"
    by (simp add: hid_play_translator_def shift_control_def)
  show "HID_translate ev hid_play_translator
       (hid_input ''hid-deck'' ''shift'' ''modifier'' (JNum 1) (JNum 1) 100)
     = Inr (None, hid_play_translator)"
    by (simp add: HID_translate_def hid_play_translator_def hid_input_def Let_def)
  show "map_of (modifierState hid_play_translator) ''shift'' = None"
    by (simp add: hid_play_translator_def)
qed

theorem modifier_update_skipped_witness:
  "validateDeviceMapping hid_play_config = Inr () \<and>
   HIDTranslator_new hid_play_config = Inr hid_play_translator \<and>
   map_option c_type (map_of (the (ht_parsing hid_play_translator)) ''shift'') = Some ''modifier'' \<and>
   HID_translate always_throws hid_play_translator
       (hid_input ''hid-deck'' ''shift'' ''modifier'' (JNum 1) (JNum 1) 100)
     = Inr (None, hid_play_translator) \<and>
   map_of (modifierState hid_play_translator) ''shift'' = None"
  by (rule modifier_update_skipped)

subsection \<open>Device sync and the LED throttle\<close>

lemma led_key_inj [simp]: "led_key dev c = led_key dev c' \<longleftrightarrow> c = c'"
  by (simp add: led_key_def)


lemma updateLED_frame [simp]:
  "updateThrottles (updateLED t fm dev c s) = updateThrottles fm"
  "deckA (updateLED t fm dev c s) = deckA fm"
  "deckB (updateLED t fm dev c s) = deckB fm"
  "selectedTrack (updateLED t fm dev c s) = selectedTrack fm"
  by (simp_all add: updateLED_def Let_def)




lemma syncDeckState_frame [simp]:
  "updateThrottles (syncDeckState now k fm dev deck ds) = updateThrottles fm"
  "deckA (syncDeckState now k fm dev deck ds) = deckA fm"
  "deckB (syncDeckState now k fm dev deck ds) = deckB fm"
  "selectedTrack (syncDeckState now k fm dev deck ds) = selectedTrack fm"
  by (simp_all add: syncDeckState_def Let_def)























end
